theory Spec2Isabelle
  imports Complex_Main "HOL-Library.Code_Target_Nat"
begin

section \<open>Data model\<close>

text \<open>
  The two viewer widgets (\<open>OcctQOpenGLWidgetViewer\<close> and \<open>OcctQWidgetViewer\<close>) are glue
  between the GUI toolkit and the 3D viewer library.  What a callback does is the sequence
  of calls it makes on its collaborators and the way it updates the members of the widget.
  Each callback is therefore embedded as a function from the answers of the collaborators
  (\<open>host\<close>, \<open>renderer\<close>, \<open>OcctQtTools\<close>) and the members before the call (\<open>session\<close>)
  to the list of calls made, in order, and the members after the call.  What the library
  does inside one of these calls is not listed; in particular \<open>FlushViewEvents\<close> redraws
  the view and runs the redraw callback of the widget.  A callback that dereferences a
  null handle has no result (\<open>None\<close>).
\<close>

type_synonym Aspect_Drawable = nat
type_synonym Graphic3d_Vec2i = "int \<times> int"
type_synonym V3d_View = nat
type_synonym Aspect_VKeyFlags = nat
type_synonym Aspect_VKeyMouse = nat

text \<open>
  The device pixel ratio (\<open>qreal\<close>) and the position of a wheel event are numbers of type
  \<open>double\<close>.  A finite \<open>double\<close> is written \<open>Double m e\<close> for the number \<open>m * 2^e\<close>;
  a binary64 number has a mantissa below \<open>2^53\<close> in absolute value.  The product of two of
  them is the exact product rounded to 53 significant bits, to the nearest number and to
  the even mantissa on a tie, as the hardware multiplies in its default rounding mode.
  The exponent is not bounded here, which makes no difference to the whole part of a
  product that has one in the range of \<open>int\<close>.  Infinities and NaN are left out.
\<close>

datatype double = Double int int

fun double_value :: "double \<Rightarrow> real" where
  "double_value (Double m e) = real_of_int m * 2 powr real_of_int e"

fun bit_length :: "nat \<Rightarrow> nat" where
  "bit_length n = (if n = 0 then 0 else Suc (bit_length (n div 2)))"

declare bit_length.simps [simp del]

definition round_double :: "int \<Rightarrow> int \<Rightarrow> double" where
  "round_double m e =
     (let n = nat \<bar>m\<bar>; k = bit_length n - 53
      in if k = 0 then Double m e
         else (let q = n div 2 ^ k;
                   r = n mod 2 ^ k;
                   q' = (if 2 ^ k < 2 * r \<or> (2 * r = 2 ^ k \<and> odd q) then Suc q else q)
               in Double (sgn m * int q') (e + int k)))"

fun dmul :: "double \<Rightarrow> double \<Rightarrow> double" where
  "dmul (Double m1 e1) (Double m2 e2) = round_double (m1 * m2) (e1 + e2)"

text \<open>An \<open>int\<close> converts to \<open>double\<close> exactly.  A \<open>double\<close> converts to \<open>int\<close> by
  discarding the fraction; C++ defines the conversion only when the whole part fits in an
  \<open>int\<close> (\<open>fits_int\<close>).  \<open>to_int\<close> gives the whole part in every case; what
  is said of the position that a pointer or wheel handler forwards is said where it fits.\<close>

definition double_of_int :: "int \<Rightarrow> double" where
  "double_of_int n = Double n 0"

fun to_int :: "double \<Rightarrow> int" where
  "to_int (Double m e) =
     (if 0 \<le> e then m * 2 ^ nat e else sgn m * (\<bar>m\<bar> div 2 ^ nat (- e)))"

definition fits_int :: "int \<Rightarrow> bool" where
  "fits_int n = (- 2147483648 \<le> n \<and> n \<le> 2147483647)"

record QRect =
  rect_left :: int
  rect_top :: int
  rect_right :: int
  rect_bottom :: int

record Aspect_NeutralWindow =
  win_id :: nat
  myNativeHandle :: Aspect_Drawable
  mySize :: Graphic3d_Vec2i
  myIsVirtual :: bool

datatype Aspect_VKey = Aspect_VKey_Escape | Aspect_VKey_F | Aspect_VKey_Other nat

datatype AIS_Object = AIS_ViewCube | AIS_Shape_Box real real real

record QKeyEvent =
  key :: int
  key_modifiers :: nat

record QMouseEvent =
  pos :: "int \<times> int"
  buttons :: nat
  modifiers :: nat

record QWheelEvent =
  position :: "double \<times> double"
  angleDelta_y :: int

text \<open>The calls a callback makes on the toolkit, the message log and the viewer library.\<close>

datatype call =
    Message_SendFail string
  | Message_SendWarning string
  | Message_SendInfo string
  | QMessageBox_critical string string
  | QApplication_exit int
  | QWidget_update
  | Base_keyPressEvent QKeyEvent
  | Base_mousePressEvent QMouseEvent
  | Base_mouseReleaseEvent QMouseEvent
  | Base_mouseMoveEvent QMouseEvent
  | Base_wheelEvent QWheelEvent
  | OpenGl_Context_Init bool
  | Aspect_NeutralWindow_new nat
  | SetVirtual nat bool
  | SetNativeHandle nat Aspect_Drawable
  | SetSize nat int int
  | V3d_View_SetWindow V3d_View nat
  | DiagnosticInformation V3d_View bool
  | AIS_Display AIS_Object
  | FitAll V3d_View real bool
  | UpdateMouseButtons Graphic3d_Vec2i Aspect_VKeyMouse Aspect_VKeyFlags bool
  | UpdateMousePosition Graphic3d_Vec2i Aspect_VKeyMouse Aspect_VKeyFlags bool
  | UpdateZoom Graphic3d_Vec2i real
  | OcctQtFrameBuffer_new nat
  | SetDefaultFrameBuffer nat
  | InitWrapper nat
  | SetupViewport nat
  | MustBeResized V3d_View
  | Invalidate V3d_View
  | InvalidateImmediate V3d_View
  | FlushViewEvents V3d_View bool
  | AIS_ViewController_handleViewRedraw V3d_View
  | OpenGl_FrameBuffer_BindBuffer
  | OpenGl_FrameBuffer_BindDrawBuffer
  | OpenGl_FrameBuffer_BindReadBuffer
  | SetFrameBufferSRGB bool bool
  | SetSubviewComposer bool
  | V3d_View_new V3d_View
  | V3d_View_Remove V3d_View

text \<open>What the toolkit and the GL layer answer during one callback: the native handle
  (\<open>winId()\<close>, on Windows the window of the current device context), the widget rectangle,
  the device pixel ratio, whether \<open>OpenGl_Context::Init\<close> and
  \<open>OpenGl_FrameBuffer::InitWrapper\<close> succeed, the viewport size of the wrapped
  framebuffer, the diagnostic dictionary of the view, and the value of \<open>myToAskNextFrame\<close>
  (a member of the view controller, set by the library) when the redraw callback reads
  it.\<close>

record host =
  winId :: Aspect_Drawable
  rect :: QRect
  devicePixelRatioF :: double
  glCtxInit :: bool
  fboInitWrapper :: bool
  fboVPSize :: Graphic3d_Vec2i
  diagnosticInformation :: "bool \<Rightarrow> (string \<times> string) list"
  myToAskNextFrame :: bool

text \<open>What the view controller of the library answers: whether an input update changed
  the state to render, and which view lies under a point.\<close>

record renderer =
  UpdateMouseButtons_changed :: "Graphic3d_Vec2i \<Rightarrow> Aspect_VKeyMouse \<Rightarrow> Aspect_VKeyFlags \<Rightarrow> bool"
  UpdateMousePosition_changed :: "Graphic3d_Vec2i \<Rightarrow> Aspect_VKeyMouse \<Rightarrow> Aspect_VKeyFlags \<Rightarrow> bool"
  UpdateZoom_changed :: "Graphic3d_Vec2i \<Rightarrow> real \<Rightarrow> bool"
  PickSubview :: "Graphic3d_Vec2i \<Rightarrow> V3d_View option"

text \<open>The input translator \<open>OcctQtTools\<close> is not part of the sources; its three mappings
  are parameters.\<close>

record OcctQtTools =
  qtKey2VKey :: "int \<Rightarrow> Aspect_VKey"
  qtMouseButtons2VKeys :: "nat \<Rightarrow> Aspect_VKeyMouse"
  qtMouseModifiers2VKeys :: "nat \<Rightarrow> Aspect_VKeyFlags"

text \<open>The members of a viewer widget.  A handle is an \<open>option\<close>: \<open>None\<close> is the null
  handle.  \<open>myWindow\<close> is \<open>myView->Window()\<close> and \<open>mySubviews\<close> is \<open>myView->Subviews()\<close>.
  \<open>glDefaultFbo\<close> is the default framebuffer of the GL context of the view, read by
  \<open>DefaultFrameBuffer()\<close> and written by \<open>SetDefaultFrameBuffer\<close>.

  Modelled from the spec: \<open>OcctGlTools::GetGlContext\<close>, by which \<open>paintGL\<close> gets the context
  of the view, is not part of the sources, and neither is what \<open>SetWindow\<close> does to that
  context.  The spec has one context for the life of the session (on re-entry the window is
  bound \<open>to the already-initialized context\<close>) and a wrapped framebuffer that is \<open>created
  on first paint if absent\<close> and \<open>never destroyed explicitly\<close>.  So \<open>glDefaultFbo\<close> is one
  slot of the session, changed by \<open>SetDefaultFrameBuffer\<close> and by nothing else, and no
  window or framebuffer is destroyed while the widget lives.

  \<open>nbWindows\<close>, \<open>nbFrameBuffers\<close> and \<open>nbViews\<close> count the objects created so far by
  \<open>new Aspect_NeutralWindow()\<close>, \<open>new OcctQtFrameBuffer()\<close> and \<open>new V3d_View\<close>; the
  count at the time of creation identifies the object.\<close>

record session =
  myView :: "V3d_View option"
  myWindow :: "Aspect_NeutralWindow option"
  mySubviews :: "V3d_View list"
  myFocusView :: "V3d_View option"
  myGlInfo :: string
  myIsCoreProfile :: bool
  displayed :: "AIS_Object list"
  glDefaultFbo :: "nat option"
  nbWindows :: nat
  nbFrameBuffers :: nat
  nbViews :: nat

section \<open>OcctQtFrameBuffer\<close>

definition BindBuffer :: "call list" where
  "BindBuffer = [OpenGl_FrameBuffer_BindBuffer, SetFrameBufferSRGB True False]"

definition BindDrawBuffer :: "call list" where
  "BindDrawBuffer = [OpenGl_FrameBuffer_BindDrawBuffer, SetFrameBufferSRGB True False]"

definition BindReadBuffer :: "call list" where
  "BindReadBuffer = [OpenGl_FrameBuffer_BindReadBuffer]"

section \<open>OcctQOpenGLWidgetViewer\<close>

text \<open>The constructor creates the view; the window is created later.  \<open>myIsCoreProfile\<close>
  is initialised in the class declaration, which is not part of the sources.\<close>

definition OcctQOpenGLWidgetViewer :: "bool \<Rightarrow> session" where
  "OcctQOpenGLWidgetViewer isCoreProfile =
     \<lparr>myView = Some 0, myWindow = None, mySubviews = [], myFocusView = None, myGlInfo = [],
      myIsCoreProfile = isCoreProfile, displayed = [], glDefaultFbo = None,
      nbWindows = 0, nbFrameBuffers = 0, nbViews = 1\<rparr>"

fun dumpGlInfo_join :: "(string \<times> string) list \<Rightarrow> string \<Rightarrow> string" where
  "dumpGlInfo_join [] anInfo = anInfo"
| "dumpGlInfo_join ((aKey, aValue) # rest) anInfo =
     dumpGlInfo_join rest
       (if aValue \<noteq> []
        then (if anInfo \<noteq> [] then anInfo @ [CHR 0x0A] else anInfo) @ aKey @ '': '' @ aValue
        else anInfo)"

text \<open>\<open>dumpGlInfo\<close> dereferences \<open>myView\<close>: on a null handle there is no result.\<close>

definition dumpGlInfo :: "host \<Rightarrow> bool \<Rightarrow> bool \<Rightarrow> session \<Rightarrow> (call list \<times> session) option" where
  "dumpGlInfo h theIsBasic theToPrint s =
     (case myView s of
        None \<Rightarrow> None
      | Some v \<Rightarrow>
          (let anInfo = dumpGlInfo_join (diagnosticInformation h theIsBasic) []
           in Some ([DiagnosticInformation v theIsBasic]
                      @ (if theToPrint then [Message_SendInfo anInfo] else []),
                    s\<lparr>myGlInfo := anInfo\<rparr>)))"

definition dummy_shape :: AIS_Object where
  "dummy_shape = AIS_Shape_Box 100 50 90"

definition OcctQOpenGLWidgetViewer_initializeGL :: "host \<Rightarrow> session \<Rightarrow> (call list \<times> session) option" where
  "OcctQOpenGLWidgetViewer_initializeGL h s =
     (let aRect = rect h;
          aPixelRatio = devicePixelRatioF h;
          aViewSize = (to_int (dmul (double_of_int (rect_right aRect - rect_left aRect)) aPixelRatio),
                       to_int (dmul (double_of_int (rect_bottom aRect - rect_top aRect)) aPixelRatio));
          aNativeWin = winId h
      in if \<not> glCtxInit h
         then Some ([OpenGl_Context_Init (myIsCoreProfile s),
                     Message_SendFail ''Error: OpenGl_Context is unable to wrap OpenGL context'',
                     QMessageBox_critical ''Failure'' ''OpenGl_Context is unable to wrap OpenGL context'',
                     QApplication_exit 1], s)
         else
           (case myView s of
              None \<Rightarrow> None
            | Some v \<Rightarrow>
               (case myWindow s of
                  Some aWindow \<Rightarrow>
                    (case dumpGlInfo h True True
                            (s\<lparr>myWindow := Some (aWindow\<lparr>myNativeHandle := aNativeWin,
                                                         mySize := aViewSize\<rparr>)\<rparr>) of
                       None \<Rightarrow> None
                     | Some (cs, s') \<Rightarrow>
                         Some ([OpenGl_Context_Init (myIsCoreProfile s),
                                SetNativeHandle (win_id aWindow) aNativeWin,
                                SetSize (win_id aWindow) (fst aViewSize) (snd aViewSize),
                                V3d_View_SetWindow v (win_id aWindow)]
                               @ cs @ [AIS_Display dummy_shape],
                               s'\<lparr>displayed := displayed s' @ [dummy_shape]\<rparr>))
                | None \<Rightarrow>
                    (let n = nbWindows s;
                         aWindow = \<lparr>win_id = n, myNativeHandle = aNativeWin, mySize = aViewSize,
                                    myIsVirtual = True\<rparr>
                     in case dumpGlInfo h True True
                               (s\<lparr>myWindow := Some aWindow, nbWindows := Suc n\<rparr>) of
                          None \<Rightarrow> None
                        | Some (cs, s') \<Rightarrow>
                            Some ([OpenGl_Context_Init (myIsCoreProfile s),
                                   Aspect_NeutralWindow_new n,
                                   SetVirtual n True,
                                   SetNativeHandle n aNativeWin,
                                   SetSize n (fst aViewSize) (snd aViewSize),
                                   V3d_View_SetWindow v n]
                                  @ cs @ [AIS_Display AIS_ViewCube, AIS_Display dummy_shape],
                                  s'\<lparr>displayed := displayed s' @ [AIS_ViewCube, dummy_shape]\<rparr>)))))"

definition updateView :: "call list" where
  "updateView = [QWidget_update]"

text \<open>The redraw callback of the widget.  The view controller runs it from
  \<open>FlushViewEvents\<close> when that is called to handle the events, as the paint callbacks call
  it: the callback of the base class redraws the view, and another frame is asked for when
  the controller has set \<open>myToAskNextFrame\<close>.\<close>

definition handleViewRedraw :: "host \<Rightarrow> V3d_View \<Rightarrow> call list" where
  "handleViewRedraw h theView =
     AIS_ViewController_handleViewRedraw theView
       # (if myToAskNextFrame h then updateView else [])"

text \<open>The first part of \<open>paintGL\<close> after the guards: the default framebuffer of the
  context is taken, and created and set when the context has none.\<close>

definition wrap_default_fbo :: "session \<Rightarrow> call list \<times> session \<times> nat" where
  "wrap_default_fbo s =
     (case glDefaultFbo s of
        None \<Rightarrow>
          ([OcctQtFrameBuffer_new (nbFrameBuffers s), SetDefaultFrameBuffer (nbFrameBuffers s)],
           s\<lparr>glDefaultFbo := Some (nbFrameBuffers s), nbFrameBuffers := Suc (nbFrameBuffers s)\<rparr>,
           nbFrameBuffers s)
      | Some f \<Rightarrow> ([], s, f))"

definition warning_GL :: call where
  "warning_GL = Message_SendWarning ''Native window handle has changed by QOpenGLWidget!''"

definition OcctQOpenGLWidgetViewer_paintGL :: "host \<Rightarrow> session \<Rightarrow> (call list \<times> session) option" where
  "OcctQOpenGLWidgetViewer_paintGL h s =
     (case myView s of
        None \<Rightarrow> Some ([], s)
      | Some v \<Rightarrow>
         (case myWindow s of
            None \<Rightarrow> Some ([], s)
          | Some w \<Rightarrow>
             (let aNativeWin = winId h
              in if myNativeHandle w \<noteq> aNativeWin
                 then
                   (case OcctQOpenGLWidgetViewer_initializeGL h s of
                      None \<Rightarrow> None
                    | Some (cs, s') \<Rightarrow>
                        Some (warning_GL # cs, s'))
                 else
                   (let (cs1, s1, aDefaultFbo) = wrap_default_fbo s
                    in if \<not> fboInitWrapper h
                       then Some (cs1 @ [InitWrapper aDefaultFbo,
                                         Message_SendFail ''Default FBO wrapper creation failed'',
                                         QMessageBox_critical ''Failure'' ''Default FBO wrapper creation failed'',
                                         QApplication_exit 1], s1)
                       else
                         (let aViewSizeNew = fboVPSize h;
                              aViewSizeOld = mySize w;
                              aView = (case myFocusView s1 of Some f \<Rightarrow> f | None \<Rightarrow> v);
                              draw = [InvalidateImmediate aView, FlushViewEvents aView True]
                                       @ handleViewRedraw h aView
                          in if aViewSizeNew \<noteq> aViewSizeOld
                             then
                               (case dumpGlInfo h True False
                                       (s1\<lparr>myWindow := Some (w\<lparr>mySize := aViewSizeNew\<rparr>)\<rparr>) of
                                  None \<Rightarrow> None
                                | Some (cs2, s2) \<Rightarrow>
                                    Some (cs1 @ [InitWrapper aDefaultFbo,
                                                 SetSize (win_id w) (fst aViewSizeNew) (snd aViewSizeNew),
                                                 MustBeResized v, Invalidate v]
                                          @ cs2
                                          @ concat (map (\<lambda>aSubviewIter.
                                               [MustBeResized aSubviewIter, Invalidate aSubviewIter,
                                                SetupViewport aDefaultFbo]) (mySubviews s2))
                                          @ draw, s2))
                             else Some (cs1 @ [InitWrapper aDefaultFbo] @ draw, s1))))))"

definition OnSubviewChanged :: "V3d_View option \<Rightarrow> session \<Rightarrow> session" where
  "OnSubviewChanged theNewView s = s\<lparr>myFocusView := theNewView\<rparr>"

definition OcctQOpenGLWidgetViewer_keyPressEvent ::
  "OcctQtTools \<Rightarrow> QKeyEvent \<Rightarrow> session \<Rightarrow> call list \<times> session" where
  "OcctQOpenGLWidgetViewer_keyPressEvent t theEvent s =
     (case myView s of
        None \<Rightarrow> ([], s)
      | Some v \<Rightarrow>
         (case qtKey2VKey t (key theEvent) of
            Aspect_VKey_Escape \<Rightarrow> ([QApplication_exit 0], s)
          | Aspect_VKey_F \<Rightarrow> ([FitAll v (1 / 100) False, QWidget_update], s)
          | Aspect_VKey_Other k \<Rightarrow> ([Base_keyPressEvent theEvent], s)))"

definition OcctQOpenGLWidgetViewer_mousePressEvent ::
  "OcctQtTools \<Rightarrow> renderer \<Rightarrow> host \<Rightarrow> QMouseEvent \<Rightarrow> session \<Rightarrow> call list \<times> session" where
  "OcctQOpenGLWidgetViewer_mousePressEvent t r h theEvent s =
     (case myView s of
        None \<Rightarrow> ([Base_mousePressEvent theEvent], s)
      | Some v \<Rightarrow>
         (let aPixelRatio = devicePixelRatioF h;
              aPnt = (to_int (dmul (double_of_int (fst (pos theEvent))) aPixelRatio),
                      to_int (dmul (double_of_int (snd (pos theEvent))) aPixelRatio));
              aFlags = qtMouseModifiers2VKeys t (modifiers theEvent);
              aButtons = qtMouseButtons2VKeys t (buttons theEvent)
          in ([Base_mousePressEvent theEvent, UpdateMouseButtons aPnt aButtons aFlags False]
                @ (if UpdateMouseButtons_changed r aPnt aButtons aFlags then updateView else []), s)))"

definition OcctQOpenGLWidgetViewer_mouseReleaseEvent ::
  "OcctQtTools \<Rightarrow> renderer \<Rightarrow> host \<Rightarrow> QMouseEvent \<Rightarrow> session \<Rightarrow> call list \<times> session" where
  "OcctQOpenGLWidgetViewer_mouseReleaseEvent t r h theEvent s =
     (case myView s of
        None \<Rightarrow> ([Base_mouseReleaseEvent theEvent], s)
      | Some v \<Rightarrow>
         (let aPixelRatio = devicePixelRatioF h;
              aPnt = (to_int (dmul (double_of_int (fst (pos theEvent))) aPixelRatio),
                      to_int (dmul (double_of_int (snd (pos theEvent))) aPixelRatio));
              aFlags = qtMouseModifiers2VKeys t (modifiers theEvent);
              aButtons = qtMouseButtons2VKeys t (buttons theEvent)
          in ([Base_mouseReleaseEvent theEvent, UpdateMouseButtons aPnt aButtons aFlags False]
                @ (if UpdateMouseButtons_changed r aPnt aButtons aFlags then updateView else []), s)))"

definition OcctQOpenGLWidgetViewer_mouseMoveEvent ::
  "OcctQtTools \<Rightarrow> renderer \<Rightarrow> host \<Rightarrow> QMouseEvent \<Rightarrow> session \<Rightarrow> call list \<times> session" where
  "OcctQOpenGLWidgetViewer_mouseMoveEvent t r h theEvent s =
     (case myView s of
        None \<Rightarrow> ([Base_mouseMoveEvent theEvent], s)
      | Some v \<Rightarrow>
         (let aPixelRatio = devicePixelRatioF h;
              aNewPos = (to_int (dmul (double_of_int (fst (pos theEvent))) aPixelRatio),
                         to_int (dmul (double_of_int (snd (pos theEvent))) aPixelRatio));
              aButtons = qtMouseButtons2VKeys t (buttons theEvent);
              aFlags = qtMouseModifiers2VKeys t (modifiers theEvent)
          in ([Base_mouseMoveEvent theEvent, UpdateMousePosition aNewPos aButtons aFlags False]
                @ (if UpdateMousePosition_changed r aNewPos aButtons aFlags then updateView else []), s)))"

text \<open>The wheel handler as compiled against Qt 5.14 or later, where the position of the
  event is a pair of \<open>double\<close>.  The angle delta divided by 8.0 is exact in \<open>double\<close>.\<close>

definition OcctQOpenGLWidgetViewer_wheelEvent ::
  "renderer \<Rightarrow> host \<Rightarrow> QWheelEvent \<Rightarrow> session \<Rightarrow> call list \<times> session" where
  "OcctQOpenGLWidgetViewer_wheelEvent r h theEvent s =
     (case myView s of
        None \<Rightarrow> ([Base_wheelEvent theEvent], s)
      | Some v \<Rightarrow>
         (let aPixelRatio = devicePixelRatioF h;
              aPos = (to_int (dmul (fst (position theEvent)) aPixelRatio),
                      to_int (dmul (snd (position theEvent)) aPixelRatio));
              aPickedView = PickSubview r aPos;
              aDelta = real_of_int (angleDelta_y theEvent) / 8
          in if mySubviews s \<noteq> [] \<and> aPickedView \<noteq> None \<and> aPickedView \<noteq> myFocusView s
             then ([Base_wheelEvent theEvent] @ updateView, OnSubviewChanged aPickedView s)
             else ([Base_wheelEvent theEvent, UpdateZoom aPos aDelta]
                     @ (if UpdateZoom_changed r aPos aDelta then updateView else []), s)))"

text \<open>\<open>MyMainWindow::splitSubviews\<close> of the sample application: it removes the sub-views
  when there are some and gives the focus back to the primary view, and otherwise creates
  two sub-views and gives the focus to the first.  A view created with the primary view as
  its window is a member of \<open>Subviews()\<close> until it is removed.\<close>

definition splitSubviews :: "session \<Rightarrow> (call list \<times> session) option" where
  "splitSubviews s =
     (case myView s of
        None \<Rightarrow> None
      | Some v \<Rightarrow>
         (if mySubviews s \<noteq> []
          then Some ([SetSubviewComposer False] @ map V3d_View_Remove (mySubviews s)
                       @ [Invalidate v, QWidget_update],
                     OnSubviewChanged (Some v) (s\<lparr>mySubviews := []\<rparr>))
          else
            (let aSubView1 = nbViews s; aSubView2 = Suc (nbViews s)
             in Some ([SetSubviewComposer True, V3d_View_new aSubView1, V3d_View_new aSubView2,
                       Invalidate v, QWidget_update],
                      OnSubviewChanged (Some aSubView1)
                        (s\<lparr>mySubviews := [aSubView1, aSubView2], nbViews := Suc (Suc (nbViews s))\<rparr>)))))"

section \<open>OcctQWidgetViewer\<close>

definition OcctQWidgetViewer_initializeGL :: "host \<Rightarrow> session \<Rightarrow> (call list \<times> session) option" where
  "OcctQWidgetViewer_initializeGL h s =
     (let aRect = rect h;
          aViewSize = (rect_right aRect - rect_left aRect, rect_bottom aRect - rect_top aRect);
          aNativeWin = winId h
      in case myView s of
           None \<Rightarrow> None
         | Some v \<Rightarrow>
            (case myWindow s of
               Some aWindow \<Rightarrow>
                 (case dumpGlInfo h True True
                         (s\<lparr>myWindow := Some (aWindow\<lparr>myNativeHandle := aNativeWin, mySize := aViewSize\<rparr>)\<rparr>) of
                    None \<Rightarrow> None
                  | Some (cs, s') \<Rightarrow>
                      Some ([SetNativeHandle (win_id aWindow) aNativeWin,
                             SetSize (win_id aWindow) (fst aViewSize) (snd aViewSize),
                             V3d_View_SetWindow v (win_id aWindow)]
                            @ cs @ [AIS_Display dummy_shape],
                            s'\<lparr>displayed := displayed s' @ [dummy_shape]\<rparr>))
             | None \<Rightarrow>
                 (let n = nbWindows s;
                      aWindow = \<lparr>win_id = n, myNativeHandle = aNativeWin, mySize = aViewSize,
                                 myIsVirtual = True\<rparr>
                  in case dumpGlInfo h True True (s\<lparr>myWindow := Some aWindow, nbWindows := Suc n\<rparr>) of
                       None \<Rightarrow> None
                     | Some (cs, s') \<Rightarrow>
                         Some ([Aspect_NeutralWindow_new n,
                                SetVirtual n True,
                                SetNativeHandle n aNativeWin,
                                SetSize n (fst aViewSize) (snd aViewSize),
                                V3d_View_SetWindow v n]
                               @ cs @ [AIS_Display AIS_ViewCube, AIS_Display dummy_shape],
                               s'\<lparr>displayed := displayed s' @ [AIS_ViewCube, dummy_shape]\<rparr>))))"

text \<open>The constructor of the native-window variant creates the view and runs
  \<open>initializeGL\<close> at once.\<close>

definition OcctQWidgetViewer :: "host \<Rightarrow> (call list \<times> session) option" where
  "OcctQWidgetViewer h =
     OcctQWidgetViewer_initializeGL h
       \<lparr>myView = Some 0, myWindow = None, mySubviews = [], myFocusView = None, myGlInfo = [],
        myIsCoreProfile = False, displayed = [], glDefaultFbo = None,
        nbWindows = 0, nbFrameBuffers = 0, nbViews = 1\<rparr>"

definition warning_QW :: call where
  "warning_QW = Message_SendWarning ''Native window handle has changed by QWidget!''"

definition OcctQWidgetViewer_paintEvent :: "host \<Rightarrow> session \<Rightarrow> (call list \<times> session) option" where
  "OcctQWidgetViewer_paintEvent h s =
     (case myView s of
        None \<Rightarrow> Some ([], s)
      | Some v \<Rightarrow>
         (case myWindow s of
            None \<Rightarrow> Some ([], s)
          | Some w \<Rightarrow>
             (let aNativeWin = winId h
              in if myNativeHandle w \<noteq> aNativeWin
                 then
                   (case OcctQWidgetViewer_initializeGL h s of
                      None \<Rightarrow> None
                    | Some (cs, s') \<Rightarrow>
                        Some (warning_QW # cs, s'))
                 else
                   (let aRect = rect h;
                        aViewSizeNew = (rect_right aRect - rect_left aRect, rect_bottom aRect - rect_top aRect);
                        aViewSizeOld = mySize w;
                        aView = (case myFocusView s of Some f \<Rightarrow> f | None \<Rightarrow> v);
                        draw = [InvalidateImmediate aView, FlushViewEvents aView True]
                                       @ handleViewRedraw h aView
                    in if aViewSizeNew \<noteq> aViewSizeOld
                       then
                         (case dumpGlInfo h True False
                                 (s\<lparr>myWindow := Some (w\<lparr>mySize := aViewSizeNew\<rparr>)\<rparr>) of
                            None \<Rightarrow> None
                          | Some (cs2, s2) \<Rightarrow>
                              Some ([SetSize (win_id w) (fst aViewSizeNew) (snd aViewSizeNew),
                                     MustBeResized v, Invalidate v]
                                    @ cs2
                                    @ concat (map (\<lambda>aSubviewIter.
                                         [MustBeResized aSubviewIter, Invalidate aSubviewIter])
                                         (mySubviews s2))
                                    @ draw, s2))
                       else Some (draw, s)))))"

definition OcctQWidgetViewer_resizeEvent :: "session \<Rightarrow> call list \<times> session" where
  "OcctQWidgetViewer_resizeEvent s =
     (case myView s of None \<Rightarrow> ([], s) | Some v \<Rightarrow> ([MustBeResized v], s))"

definition OcctQWidgetViewer_keyPressEvent ::
  "OcctQtTools \<Rightarrow> QKeyEvent \<Rightarrow> session \<Rightarrow> call list \<times> session" where
  "OcctQWidgetViewer_keyPressEvent t theEvent s =
     (case myView s of
        None \<Rightarrow> ([], s)
      | Some v \<Rightarrow>
         (case qtKey2VKey t (key theEvent) of
            Aspect_VKey_Escape \<Rightarrow> ([QApplication_exit 0], s)
          | Aspect_VKey_F \<Rightarrow> ([FitAll v (1 / 100) False, QWidget_update], s)
          | Aspect_VKey_Other k \<Rightarrow> ([Base_keyPressEvent theEvent], s)))"

definition OcctQWidgetViewer_mousePressEvent ::
  "OcctQtTools \<Rightarrow> renderer \<Rightarrow> QMouseEvent \<Rightarrow> session \<Rightarrow> call list \<times> session" where
  "OcctQWidgetViewer_mousePressEvent t r theEvent s =
     (case myView s of
        None \<Rightarrow> ([Base_mousePressEvent theEvent], s)
      | Some v \<Rightarrow>
         (let aPnt = (fst (pos theEvent), snd (pos theEvent));
              aFlags = qtMouseModifiers2VKeys t (modifiers theEvent);
              aButtons = qtMouseButtons2VKeys t (buttons theEvent)
          in ([Base_mousePressEvent theEvent, UpdateMouseButtons aPnt aButtons aFlags False]
                @ (if UpdateMouseButtons_changed r aPnt aButtons aFlags then updateView else []), s)))"

definition OcctQWidgetViewer_mouseReleaseEvent ::
  "OcctQtTools \<Rightarrow> renderer \<Rightarrow> QMouseEvent \<Rightarrow> session \<Rightarrow> call list \<times> session" where
  "OcctQWidgetViewer_mouseReleaseEvent t r theEvent s =
     (case myView s of
        None \<Rightarrow> ([Base_mouseReleaseEvent theEvent], s)
      | Some v \<Rightarrow>
         (let aPnt = (fst (pos theEvent), snd (pos theEvent));
              aFlags = qtMouseModifiers2VKeys t (modifiers theEvent);
              aButtons = qtMouseButtons2VKeys t (buttons theEvent)
          in ([Base_mouseReleaseEvent theEvent, UpdateMouseButtons aPnt aButtons aFlags False]
                @ (if UpdateMouseButtons_changed r aPnt aButtons aFlags then updateView else []), s)))"

definition OcctQWidgetViewer_mouseMoveEvent ::
  "OcctQtTools \<Rightarrow> renderer \<Rightarrow> QMouseEvent \<Rightarrow> session \<Rightarrow> call list \<times> session" where
  "OcctQWidgetViewer_mouseMoveEvent t r theEvent s =
     (case myView s of
        None \<Rightarrow> ([Base_mouseMoveEvent theEvent], s)
      | Some v \<Rightarrow>
         (let aNewPos = (fst (pos theEvent), snd (pos theEvent));
              aButtons = qtMouseButtons2VKeys t (buttons theEvent);
              aFlags = qtMouseModifiers2VKeys t (modifiers theEvent)
          in ([Base_mouseMoveEvent theEvent, UpdateMousePosition aNewPos aButtons aFlags False]
                @ (if UpdateMousePosition_changed r aNewPos aButtons aFlags then updateView else []), s)))"

definition OcctQWidgetViewer_wheelEvent ::
  "renderer \<Rightarrow> QWheelEvent \<Rightarrow> session \<Rightarrow> call list \<times> session" where
  "OcctQWidgetViewer_wheelEvent r theEvent s =
     (case myView s of
        None \<Rightarrow> ([Base_wheelEvent theEvent], s)
      | Some v \<Rightarrow>
         (let aPos = (to_int (fst (position theEvent)), to_int (snd (position theEvent)));
              aPickedView = PickSubview r aPos;
              aDelta = real_of_int (angleDelta_y theEvent) / 8
          in if mySubviews s \<noteq> [] \<and> aPickedView \<noteq> None \<and> aPickedView \<noteq> myFocusView s
             then ([Base_wheelEvent theEvent] @ updateView, OnSubviewChanged aPickedView s)
             else ([Base_wheelEvent theEvent, UpdateZoom aPos aDelta]
                     @ (if UpdateZoom_changed r aPos aDelta then updateView else []), s)))"

section \<open>Sessions\<close>

text \<open>The callbacks the toolkit delivers to a toolkit-managed viewer during its life, each
  with the answers of the collaborators at that time.\<close>

datatype event =
    Ev_initializeGL host
  | Ev_paintGL host
  | Ev_keyPress QKeyEvent
  | Ev_mousePress renderer host QMouseEvent
  | Ev_mouseRelease renderer host QMouseEvent
  | Ev_mouseMove renderer host QMouseEvent
  | Ev_wheel renderer host QWheelEvent
  | Ev_splitSubviews

fun deliver :: "OcctQtTools \<Rightarrow> event \<Rightarrow> session \<Rightarrow> (call list \<times> session) option" where
  "deliver t (Ev_initializeGL h) s = OcctQOpenGLWidgetViewer_initializeGL h s"
| "deliver t (Ev_paintGL h) s = OcctQOpenGLWidgetViewer_paintGL h s"
| "deliver t (Ev_keyPress e) s = Some (OcctQOpenGLWidgetViewer_keyPressEvent t e s)"
| "deliver t (Ev_mousePress r h e) s = Some (OcctQOpenGLWidgetViewer_mousePressEvent t r h e s)"
| "deliver t (Ev_mouseRelease r h e) s = Some (OcctQOpenGLWidgetViewer_mouseReleaseEvent t r h e s)"
| "deliver t (Ev_mouseMove r h e) s = Some (OcctQOpenGLWidgetViewer_mouseMoveEvent t r h e s)"
| "deliver t (Ev_wheel r h e) s = Some (OcctQOpenGLWidgetViewer_wheelEvent r h e s)"
| "deliver t Ev_splitSubviews s = splitSubviews s"

fun deliver_all :: "OcctQtTools \<Rightarrow> event list \<Rightarrow> session \<Rightarrow> (call list \<times> session) option" where
  "deliver_all t [] s = Some ([], s)"
| "deliver_all t (e # es) s =
     (case deliver t e s of
        None \<Rightarrow> None
      | Some (cs, s') \<Rightarrow>
          (case deliver_all t es s' of
             None \<Rightarrow> None
           | Some (cs', s'') \<Rightarrow> Some (cs @ cs', s'')))"

text \<open>The same for the native-window viewer.\<close>

datatype qw_event =
    QEv_paintEvent host
  | QEv_resizeEvent
  | QEv_keyPress QKeyEvent
  | QEv_mousePress renderer QMouseEvent
  | QEv_mouseRelease renderer QMouseEvent
  | QEv_mouseMove renderer QMouseEvent
  | QEv_wheel renderer QWheelEvent

fun qw_deliver :: "OcctQtTools \<Rightarrow> qw_event \<Rightarrow> session \<Rightarrow> (call list \<times> session) option" where
  "qw_deliver t (QEv_paintEvent h) s = OcctQWidgetViewer_paintEvent h s"
| "qw_deliver t QEv_resizeEvent s = Some (OcctQWidgetViewer_resizeEvent s)"
| "qw_deliver t (QEv_keyPress e) s = Some (OcctQWidgetViewer_keyPressEvent t e s)"
| "qw_deliver t (QEv_mousePress r e) s = Some (OcctQWidgetViewer_mousePressEvent t r e s)"
| "qw_deliver t (QEv_mouseRelease r e) s = Some (OcctQWidgetViewer_mouseReleaseEvent t r e s)"
| "qw_deliver t (QEv_mouseMove r e) s = Some (OcctQWidgetViewer_mouseMoveEvent t r e s)"
| "qw_deliver t (QEv_wheel r e) s = Some (OcctQWidgetViewer_wheelEvent r e s)"

fun qw_deliver_all :: "OcctQtTools \<Rightarrow> qw_event list \<Rightarrow> session \<Rightarrow> (call list \<times> session) option" where
  "qw_deliver_all t [] s = Some ([], s)"
| "qw_deliver_all t (e # es) s =
     (case qw_deliver t e s of
        None \<Rightarrow> None
      | Some (cs, s') \<Rightarrow>
          (case qw_deliver_all t es s' of
             None \<Rightarrow> None
           | Some (cs', s'') \<Rightarrow> Some (cs @ cs', s'')))"

section \<open>Observations on a list of calls\<close>

text \<open>A frame is drawn by \<open>FlushViewEvents\<close>.\<close>

fun is_draw :: "call \<Rightarrow> bool" where
  "is_draw (FlushViewEvents v b) = True"
| "is_draw c = False"

definition draws :: "call list \<Rightarrow> bool" where
  "draws cs = list_ex is_draw cs"

text \<open>A fatal failure is reported by a modal dialog and ends the application.\<close>

fun is_fatal :: "call \<Rightarrow> bool" where
  "is_fatal (QMessageBox_critical a b) = True"
| "is_fatal (QApplication_exit n) = True"
| "is_fatal c = False"

definition fatal :: "call list \<Rightarrow> bool" where
  "fatal cs = list_ex is_fatal cs"

text \<open>The entry points of the viewer library, as opposed to those of the toolkit (the
  handlers of the base class, \<open>update\<close>, the dialog and the exit request) and the log.\<close>

fun is_renderer_call :: "call \<Rightarrow> bool" where
  "is_renderer_call (Message_SendFail m) = False"
| "is_renderer_call (Message_SendWarning m) = False"
| "is_renderer_call (Message_SendInfo m) = False"
| "is_renderer_call (QMessageBox_critical a b) = False"
| "is_renderer_call (QApplication_exit n) = False"
| "is_renderer_call QWidget_update = False"
| "is_renderer_call (Base_keyPressEvent e) = False"
| "is_renderer_call (Base_mousePressEvent e) = False"
| "is_renderer_call (Base_mouseReleaseEvent e) = False"
| "is_renderer_call (Base_mouseMoveEvent e) = False"
| "is_renderer_call (Base_wheelEvent e) = False"
| "is_renderer_call c = True"

fun is_alloc_window :: "call \<Rightarrow> bool" where
  "is_alloc_window (Aspect_NeutralWindow_new n) = True"
| "is_alloc_window c = False"

fun is_alloc_fbo :: "call \<Rightarrow> bool" where
  "is_alloc_fbo (OcctQtFrameBuffer_new n) = True"
| "is_alloc_fbo c = False"

fun is_zoom :: "call \<Rightarrow> bool" where
  "is_zoom (UpdateZoom p d) = True"
| "is_zoom c = False"

text \<open>The three bind operations of the wrapped framebuffer.\<close>

datatype bind_target = Active_target | Drawing_target | Reading_source

fun OcctQtFrameBuffer_bind :: "bind_target \<Rightarrow> call list" where
  "OcctQtFrameBuffer_bind Active_target = BindBuffer"
| "OcctQtFrameBuffer_bind Drawing_target = BindDrawBuffer"
| "OcctQtFrameBuffer_bind Reading_source = BindReadBuffer"

section \<open>Measured sizes\<close>

text \<open>The size of the widget in device pixels as \<open>OcctQOpenGLWidgetViewer::initializeGL\<close>
  computes it, and the size in logical pixels as \<open>OcctQWidgetViewer\<close> computes it.\<close>

definition device_pixel_size :: "host \<Rightarrow> Graphic3d_Vec2i" where
  "device_pixel_size h =
     (to_int (dmul (double_of_int (rect_right (rect h) - rect_left (rect h))) (devicePixelRatioF h)),
      to_int (dmul (double_of_int (rect_bottom (rect h) - rect_top (rect h))) (devicePixelRatioF h)))"

definition logical_size :: "host \<Rightarrow> Graphic3d_Vec2i" where
  "logical_size h =
     (rect_right (rect h) - rect_left (rect h), rect_bottom (rect h) - rect_top (rect h))"

text \<open>The text \<open>dumpGlInfo\<close> stores in \<open>myGlInfo\<close>.\<close>

definition gl_info :: "host \<Rightarrow> bool \<Rightarrow> string" where
  "gl_info h theIsBasic = dumpGlInfo_join (diagnosticInformation h theIsBasic) []"

text \<open>The calls by which \<open>initializeGL\<close> binds a window to the view.\<close>

fun is_surface_init :: "call \<Rightarrow> bool" where
  "is_surface_init (V3d_View_SetWindow v n) = True"
| "is_surface_init (OpenGl_Context_Init b) = True"
| "is_surface_init c = False"

section \<open>Concrete sessions\<close>

definition example_tools :: OcctQtTools where
  "example_tools =
     \<lparr>qtKey2VKey = (\<lambda>k. if k = 16777216 then Aspect_VKey_Escape
                         else if k = 70 then Aspect_VKey_F else Aspect_VKey_Other (nat k)),
      qtMouseButtons2VKeys = (\<lambda>b. b),
      qtMouseModifiers2VKeys = (\<lambda>m. m)\<rparr>"

definition example_renderer :: "bool \<Rightarrow> V3d_View option \<Rightarrow> renderer" where
  "example_renderer changed picked =
     \<lparr>UpdateMouseButtons_changed = (\<lambda>p b f. changed),
      UpdateMousePosition_changed = (\<lambda>p b f. changed),
      UpdateZoom_changed = (\<lambda>p d. changed),
      PickSubview = (\<lambda>p. picked)\<rparr>"

text \<open>A host showing the widget in a window with native handle \<open>hnd\<close>, 800 by 600 logical
  pixels in the way the sources measure it, at the whole device pixel ratio \<open>dpr\<close>.\<close>

definition example_host :: "Aspect_Drawable \<Rightarrow> int \<Rightarrow> bool \<Rightarrow> bool \<Rightarrow> host" where
  "example_host hnd dpr ctx_ok fbo_ok =
     \<lparr>winId = hnd,
      rect = \<lparr>rect_left = 0, rect_top = 0, rect_right = 800, rect_bottom = 600\<rparr>,
      devicePixelRatioF = double_of_int dpr,
      glCtxInit = ctx_ok,
      fboInitWrapper = fbo_ok,
      fboVPSize = (800 * dpr, 600 * dpr),
      diagnosticInformation =
        (\<lambda>b. [(''GLvendor'', ''ACME''), (''GLdevice'', []), (''GLversion'', ''4.5'')]),
      myToAskNextFrame = False\<rparr>"

text \<open>The toolkit-managed viewer after its first \<open>initializeGL\<close> on \<open>example_host 7 1\<close>.\<close>

definition bound_session :: session where
  "bound_session =
     \<lparr>myView = Some 0,
      myWindow = Some \<lparr>win_id = 0, myNativeHandle = 7, mySize = (800, 600), myIsVirtual = True\<rparr>,
      mySubviews = [], myFocusView = None,
      myGlInfo = ''GLvendor: ACME'' @ [CHR 0x0A] @ ''GLversion: 4.5'',
      myIsCoreProfile = False,
      displayed = [AIS_ViewCube, dummy_shape],
      glDefaultFbo = None, nbWindows = 1, nbFrameBuffers = 0, nbViews = 1\<rparr>"

text \<open>A logical position scaled by the device pixel ratio: each coordinate is multiplied
  by the ratio in \<open>double\<close> and converted to \<open>int\<close>.  The same for the position of a
  wheel event, which is a pair of \<open>double\<close>.\<close>

definition scaled_to_device_pixels :: "double \<Rightarrow> int \<times> int \<Rightarrow> Graphic3d_Vec2i" where
  "scaled_to_device_pixels ratio p =
     (to_int (dmul (double_of_int (fst p)) ratio), to_int (dmul (double_of_int (snd p)) ratio))"

definition wheel_to_device_pixels :: "double \<Rightarrow> double \<times> double \<Rightarrow> Graphic3d_Vec2i" where
  "wheel_to_device_pixels ratio p = (to_int (dmul (fst p) ratio), to_int (dmul (snd p) ratio))"

definition fits_Vec2i :: "Graphic3d_Vec2i \<Rightarrow> bool" where
  "fits_Vec2i p = (fits_int (fst p) \<and> fits_int (snd p))"

text \<open>The binary64 number nearest to 1.4, a device pixel ratio of displays scaled to 140
  percent.\<close>

definition ratio_1_4 :: double where
  "ratio_1_4 = Double 6305039478318694 (- 52)"

text \<open>A renderer whose window is split at x = 700 into sub-view 1 on the left and
  sub-view 2 on the right.\<close>

definition split_renderer :: "bool \<Rightarrow> renderer" where
  "split_renderer changed =
     \<lparr>UpdateMouseButtons_changed = (\<lambda>p b f. changed),
      UpdateMousePosition_changed = (\<lambda>p b f. changed),
      UpdateZoom_changed = (\<lambda>p d. changed),
      PickSubview = (\<lambda>p. if fst p < 700 then Some 1 else Some 2)\<rparr>"

text \<open>The views that are the target of input, and the size recorded in the window.\<close>

definition focused :: "session \<Rightarrow> V3d_View set" where
  "focused s = set_option (myFocusView s)"

definition recorded_size :: "session \<Rightarrow> Graphic3d_Vec2i option" where
  "recorded_size s = map_option mySize (myWindow s)"

fun is_log_info :: "call \<Rightarrow> bool" where
  "is_log_info (Message_SendInfo m) = True"
| "is_log_info c = False"

text \<open>The calls of the resize step of a paint callback.\<close>

fun is_resize_call :: "call \<Rightarrow> bool" where
  "is_resize_call (SetSize n x y) = True"
| "is_resize_call (MustBeResized v) = True"
| "is_resize_call (Invalidate v) = True"
| "is_resize_call (DiagnosticInformation v b) = True"
| "is_resize_call (SetupViewport f) = True"
| "is_resize_call c = False"

text \<open>A session split in two sub-views, the first of which has the focus: \<open>bound_session\<close>
  after \<open>splitSubviews\<close>.\<close>

definition split_session :: session where
  "split_session = bound_session\<lparr>mySubviews := [1, 2], myFocusView := Some 1, nbViews := 3\<rparr>"

text \<open>The host of \<open>example_host 7 2\<close> after the widget was resized to 1000 by 700 logical
  pixels, that is 2000 by 1400 device pixels.\<close>

definition resized_host :: host where
  "resized_host =
     (example_host 7 2 True True)
       \<lparr>rect := \<lparr>rect_left = 0, rect_top = 0, rect_right = 1000, rect_bottom = 700\<rparr>,
        fboVPSize := (2000, 1400)\<rparr>"

text \<open>What holds of the members of a viewer at every time of its life: the view exists,
  the one window created, if any, is the window of the view, and the one wrapped
  framebuffer created, if any, is the default framebuffer of the context.\<close>

definition session_inv :: "session \<Rightarrow> bool" where
  "session_inv s =
     (myView s \<noteq> None
      \<and> nbWindows s = (case myWindow s of None \<Rightarrow> 0 | Some w \<Rightarrow> 1)
      \<and> map_option win_id (myWindow s) = (case myWindow s of None \<Rightarrow> None | Some w \<Rightarrow> Some 0)
      \<and> nbFrameBuffers s = (case glDefaultFbo s of None \<Rightarrow> 0 | Some f \<Rightarrow> 1)
      \<and> glDefaultFbo s = (case glDefaultFbo s of None \<Rightarrow> None | Some f \<Rightarrow> Some 0))"

text \<open>The host of \<open>example_host 7 1\<close> on a display scaled to 140 percent.\<close>

definition scaled_host :: host where
  "scaled_host = (example_host 7 1 True True)\<lparr>devicePixelRatioF := ratio_1_4\<rparr>"

section \<open>Basic facts\<close>

lemma bit_length_le: "n < 2 ^ k \<Longrightarrow> bit_length n \<le> k"
proof (induction k arbitrary: n)
  case 0
  then show ?case by (simp add: bit_length.simps)
next
  case (Suc k)
  show ?case
  proof (cases "n = 0")
    case True
    then show ?thesis by (simp add: bit_length.simps)
  next
    case False
    from Suc.prems have "n div 2 < 2 ^ k" by simp
    from Suc.IH [OF this] False show ?thesis
      by (subst bit_length.simps) simp
  qed
qed

lemma round_double_exact: "\<bar>m\<bar> < 2 ^ 53 \<Longrightarrow> round_double m e = Double m e"
proof -
  assume "\<bar>m\<bar> < 2 ^ 53"
  then have "nat \<bar>m\<bar> < 2 ^ 53" by (simp add: nat_less_iff)
  then have "bit_length (nat \<bar>m\<bar>) \<le> 53" by (rule bit_length_le)
  then show ?thesis by (simp add: round_double_def)
qed

lemma to_int_double_of_int [simp]: "to_int (double_of_int n) = n"
  by (simp add: double_of_int_def)

lemma scale_whole [simp]:
  "\<bar>a * b\<bar> < 9007199254740992 \<Longrightarrow> to_int (dmul (double_of_int a) (double_of_int b)) = a * b"
  by (simp add: double_of_int_def round_double_exact)

lemma double_value_of_int: "double_value (double_of_int n) = real_of_int n"
  by (simp add: double_of_int_def)

lemma handleViewRedraw_calls [simp]:
  "\<not> list_ex is_draw (handleViewRedraw h v)"
  "\<not> list_ex is_fatal (handleViewRedraw h v)"
  "\<not> list_ex is_surface_init (handleViewRedraw h v)"
  "\<not> list_ex is_alloc_window (handleViewRedraw h v)"
  "\<not> list_ex is_alloc_fbo (handleViewRedraw h v)"
  "\<not> list_ex is_log_info (handleViewRedraw h v)"
  "\<not> list_ex is_resize_call (handleViewRedraw h v)"
  "filter is_alloc_window (handleViewRedraw h v) = []"
  "filter is_alloc_fbo (handleViewRedraw h v) = []"
  by (simp_all add: handleViewRedraw_def updateView_def)

lemma handleViewRedraw_set [simp]:
  "(x \<in> set (handleViewRedraw h v))
     = (x = AIS_ViewController_handleViewRedraw v \<or> (myToAskNextFrame h \<and> x = QWidget_update))"
  by (auto simp add: handleViewRedraw_def updateView_def)

lemma handleViewRedraw_example [simp]:
  "handleViewRedraw (example_host hnd dpr ctx_ok fbo_ok) v = [AIS_ViewController_handleViewRedraw v]"
  by (simp add: handleViewRedraw_def example_host_def)


section \<open>The colour space reported on bind (C6)\<close>

text \<open>
  C6, as stated: every bind operation of the wrapped framebuffer (as active target, as
  drawing target and as reading source) reports the framebuffer as one without sRGB
  conversion to the context, by \<open>SetFrameBufferSRGB (true, false)\<close>.  This fails for the
  bind as reading source, which only runs the bind of the base class.
\<close>

theorem C6_counterexample:
  "SetFrameBufferSRGB True False \<notin> set (OcctQtFrameBuffer_bind Reading_source)"
  by (simp add: BindReadBuffer_def)

text \<open>
  C6, amended: a bind operation of the wrapped framebuffer reports the framebuffer as one
  without sRGB conversion exactly when it binds the framebuffer as active target or as
  drawing target; each of the three runs the bind of the base class first, and the bind as
  reading source does nothing else.
\<close>

theorem C6_bind_reports_color_space:
  "(SetFrameBufferSRGB True False \<in> set (OcctQtFrameBuffer_bind k)) = (k \<noteq> Reading_source)
   \<and> hd (OcctQtFrameBuffer_bind k)
       = (case k of Active_target \<Rightarrow> OpenGl_FrameBuffer_BindBuffer
          | Drawing_target \<Rightarrow> OpenGl_FrameBuffer_BindDrawBuffer
          | Reading_source \<Rightarrow> OpenGl_FrameBuffer_BindReadBuffer)
   \<and> length (OcctQtFrameBuffer_bind k) = (if k = Reading_source then 1 else 2)"
  by (cases k) (simp_all add: BindBuffer_def BindDrawBuffer_def BindReadBuffer_def)

theorem C6_witness:
  "SetFrameBufferSRGB True False \<in> set (OcctQtFrameBuffer_bind Drawing_target)
   \<and> SetFrameBufferSRGB True False \<in> set (OcctQtFrameBuffer_bind Active_target)
   \<and> length (OcctQtFrameBuffer_bind Reading_source) = 1"
  using C6_bind_reports_color_space [of Drawing_target]
    C6_bind_reports_color_space [of Active_target]
    C6_bind_reports_color_space [of Reading_source]
  by simp

lemma dumpGlInfo_bound:
  "myView s = Some v \<Longrightarrow>
   dumpGlInfo h b p s
     = Some (DiagnosticInformation v b # (if p then [Message_SendInfo (gl_info h b)] else []),
             s\<lparr>myGlInfo := gl_info h b\<rparr>)"
  by (simp add: dumpGlInfo_def gl_info_def Let_def)

lemma GL_initializeGL_fail:
  "\<not> glCtxInit h \<Longrightarrow>
   OcctQOpenGLWidgetViewer_initializeGL h s
     = Some ([OpenGl_Context_Init (myIsCoreProfile s),
              Message_SendFail ''Error: OpenGl_Context is unable to wrap OpenGL context'',
              QMessageBox_critical ''Failure'' ''OpenGl_Context is unable to wrap OpenGL context'',
              QApplication_exit 1], s)"
  by (simp add: OcctQOpenGLWidgetViewer_initializeGL_def)

lemma GL_initializeGL_reuse:
  "glCtxInit h \<Longrightarrow> myView s = Some v \<Longrightarrow> myWindow s = Some w \<Longrightarrow>
   OcctQOpenGLWidgetViewer_initializeGL h s
     = Some ([OpenGl_Context_Init (myIsCoreProfile s),
              SetNativeHandle (win_id w) (winId h),
              SetSize (win_id w) (fst (device_pixel_size h)) (snd (device_pixel_size h)),
              V3d_View_SetWindow v (win_id w),
              DiagnosticInformation v True, Message_SendInfo (gl_info h True),
              AIS_Display dummy_shape],
             s\<lparr>myWindow := Some (w\<lparr>myNativeHandle := winId h, mySize := device_pixel_size h\<rparr>),
               myGlInfo := gl_info h True,
               displayed := displayed s @ [dummy_shape]\<rparr>)"
  by (simp add: OcctQOpenGLWidgetViewer_initializeGL_def dumpGlInfo_bound device_pixel_size_def Let_def)

lemma GL_initializeGL_create:
  "glCtxInit h \<Longrightarrow> myView s = Some v \<Longrightarrow> myWindow s = None \<Longrightarrow>
   OcctQOpenGLWidgetViewer_initializeGL h s
     = Some ([OpenGl_Context_Init (myIsCoreProfile s),
              Aspect_NeutralWindow_new (nbWindows s),
              SetVirtual (nbWindows s) True,
              SetNativeHandle (nbWindows s) (winId h),
              SetSize (nbWindows s) (fst (device_pixel_size h)) (snd (device_pixel_size h)),
              V3d_View_SetWindow v (nbWindows s),
              DiagnosticInformation v True, Message_SendInfo (gl_info h True),
              AIS_Display AIS_ViewCube, AIS_Display dummy_shape],
             s\<lparr>myWindow := Some \<lparr>win_id = nbWindows s, myNativeHandle = winId h,
                                 mySize = device_pixel_size h, myIsVirtual = True\<rparr>,
               nbWindows := Suc (nbWindows s),
               myGlInfo := gl_info h True,
               displayed := displayed s @ [AIS_ViewCube, dummy_shape]\<rparr>)"
  by (simp add: OcctQOpenGLWidgetViewer_initializeGL_def dumpGlInfo_bound device_pixel_size_def Let_def)

lemma QW_initializeGL_reuse:
  "myView s = Some v \<Longrightarrow> myWindow s = Some w \<Longrightarrow>
   OcctQWidgetViewer_initializeGL h s
     = Some ([SetNativeHandle (win_id w) (winId h),
              SetSize (win_id w) (fst (logical_size h)) (snd (logical_size h)),
              V3d_View_SetWindow v (win_id w),
              DiagnosticInformation v True, Message_SendInfo (gl_info h True),
              AIS_Display dummy_shape],
             s\<lparr>myWindow := Some (w\<lparr>myNativeHandle := winId h, mySize := logical_size h\<rparr>),
               myGlInfo := gl_info h True,
               displayed := displayed s @ [dummy_shape]\<rparr>)"
  by (simp add: OcctQWidgetViewer_initializeGL_def dumpGlInfo_bound logical_size_def Let_def)

lemma QW_initializeGL_create:
  "myView s = Some v \<Longrightarrow> myWindow s = None \<Longrightarrow>
   OcctQWidgetViewer_initializeGL h s
     = Some ([Aspect_NeutralWindow_new (nbWindows s),
              SetVirtual (nbWindows s) True,
              SetNativeHandle (nbWindows s) (winId h),
              SetSize (nbWindows s) (fst (logical_size h)) (snd (logical_size h)),
              V3d_View_SetWindow v (nbWindows s),
              DiagnosticInformation v True, Message_SendInfo (gl_info h True),
              AIS_Display AIS_ViewCube, AIS_Display dummy_shape],
             s\<lparr>myWindow := Some \<lparr>win_id = nbWindows s, myNativeHandle = winId h,
                                 mySize = logical_size h, myIsVirtual = True\<rparr>,
               nbWindows := Suc (nbWindows s),
               myGlInfo := gl_info h True,
               displayed := displayed s @ [AIS_ViewCube, dummy_shape]\<rparr>)"
  by (simp add: OcctQWidgetViewer_initializeGL_def dumpGlInfo_bound logical_size_def Let_def)


lemma wrap_default_fbo_props:
  "wrap_default_fbo s = (cs1, s1, f) \<Longrightarrow>
   myView s1 = myView s \<and> myWindow s1 = myWindow s \<and> mySubviews s1 = mySubviews s
   \<and> myFocusView s1 = myFocusView s \<and> myGlInfo s1 = myGlInfo s \<and> displayed s1 = displayed s
   \<and> nbWindows s1 = nbWindows s \<and> nbViews s1 = nbViews s \<and> myIsCoreProfile s1 = myIsCoreProfile s
   \<and> glDefaultFbo s1 = Some f \<and> \<not> list_ex is_draw cs1 \<and> \<not> list_ex is_fatal cs1
   \<and> \<not> list_ex is_surface_init cs1 \<and> \<not> list_ex is_alloc_window cs1"
  by (auto simp add: wrap_default_fbo_def split: option.splits)

lemma GL_paintGL_unbound:
  "myView s = None \<or> myWindow s = None \<Longrightarrow> OcctQOpenGLWidgetViewer_paintGL h s = Some ([], s)"
  by (auto simp add: OcctQOpenGLWidgetViewer_paintGL_def split: option.splits)

lemma GL_paintGL_moved:
  "myView s = Some v \<Longrightarrow> myWindow s = Some w \<Longrightarrow> myNativeHandle w \<noteq> winId h \<Longrightarrow>
   OcctQOpenGLWidgetViewer_paintGL h s
     = (case OcctQOpenGLWidgetViewer_initializeGL h s of
          None \<Rightarrow> None
        | Some (cs, s') \<Rightarrow> Some (warning_GL # cs, s'))"
  by (simp add: OcctQOpenGLWidgetViewer_paintGL_def warning_GL_def)

lemma GL_paintGL_fbo_fail:
  "myView s = Some v \<Longrightarrow> myWindow s = Some w \<Longrightarrow> myNativeHandle w = winId h \<Longrightarrow>
   wrap_default_fbo s = (cs1, s1, f) \<Longrightarrow> \<not> fboInitWrapper h \<Longrightarrow>
   OcctQOpenGLWidgetViewer_paintGL h s
     = Some (cs1 @ [InitWrapper f,
                    Message_SendFail ''Default FBO wrapper creation failed'',
                    QMessageBox_critical ''Failure'' ''Default FBO wrapper creation failed'',
                    QApplication_exit 1], s1)"
  by (simp add: OcctQOpenGLWidgetViewer_paintGL_def)

lemma GL_paintGL_same_size:
  "myView s = Some v \<Longrightarrow> myWindow s = Some w \<Longrightarrow> myNativeHandle w = winId h \<Longrightarrow>
   wrap_default_fbo s = (cs1, s1, f) \<Longrightarrow> fboInitWrapper h \<Longrightarrow> fboVPSize h = mySize w \<Longrightarrow>
   OcctQOpenGLWidgetViewer_paintGL h s
     = Some (cs1 @ [InitWrapper f,
                    InvalidateImmediate (case myFocusView s of Some a \<Rightarrow> a | None \<Rightarrow> v),
                    FlushViewEvents (case myFocusView s of Some a \<Rightarrow> a | None \<Rightarrow> v) True]
               @ handleViewRedraw h (case myFocusView s of Some a \<Rightarrow> a | None \<Rightarrow> v), s1)"
  using wrap_default_fbo_props [of s cs1 s1 f]
  by (simp add: OcctQOpenGLWidgetViewer_paintGL_def Let_def)

lemma GL_paintGL_resized:
  "myView s = Some v \<Longrightarrow> myWindow s = Some w \<Longrightarrow> myNativeHandle w = winId h \<Longrightarrow>
   wrap_default_fbo s = (cs1, s1, f) \<Longrightarrow> fboInitWrapper h \<Longrightarrow> fboVPSize h \<noteq> mySize w \<Longrightarrow>
   OcctQOpenGLWidgetViewer_paintGL h s
     = Some (cs1 @ [InitWrapper f,
                    SetSize (win_id w) (fst (fboVPSize h)) (snd (fboVPSize h)),
                    MustBeResized v, Invalidate v, DiagnosticInformation v True]
               @ concat (map (\<lambda>a. [MustBeResized a, Invalidate a, SetupViewport f]) (mySubviews s))
               @ [InvalidateImmediate (case myFocusView s of Some a \<Rightarrow> a | None \<Rightarrow> v),
                  FlushViewEvents (case myFocusView s of Some a \<Rightarrow> a | None \<Rightarrow> v) True]
               @ handleViewRedraw h (case myFocusView s of Some a \<Rightarrow> a | None \<Rightarrow> v),
             s1\<lparr>myWindow := Some (w\<lparr>mySize := fboVPSize h\<rparr>), myGlInfo := gl_info h True\<rparr>)"
  using wrap_default_fbo_props [of s cs1 s1 f]
  by (simp add: OcctQOpenGLWidgetViewer_paintGL_def Let_def dumpGlInfo_bound)

lemma QW_paintEvent_unbound:
  "myView s = None \<or> myWindow s = None \<Longrightarrow> OcctQWidgetViewer_paintEvent h s = Some ([], s)"
  by (auto simp add: OcctQWidgetViewer_paintEvent_def split: option.splits)

lemma QW_paintEvent_moved:
  "myView s = Some v \<Longrightarrow> myWindow s = Some w \<Longrightarrow> myNativeHandle w \<noteq> winId h \<Longrightarrow>
   OcctQWidgetViewer_paintEvent h s
     = (case OcctQWidgetViewer_initializeGL h s of
          None \<Rightarrow> None
        | Some (cs, s') \<Rightarrow> Some (warning_QW # cs, s'))"
  by (simp add: OcctQWidgetViewer_paintEvent_def warning_QW_def)

lemma QW_paintEvent_same_size:
  "myView s = Some v \<Longrightarrow> myWindow s = Some w \<Longrightarrow> myNativeHandle w = winId h \<Longrightarrow>
   logical_size h = mySize w \<Longrightarrow>
   OcctQWidgetViewer_paintEvent h s
     = Some ([InvalidateImmediate (case myFocusView s of Some a \<Rightarrow> a | None \<Rightarrow> v),
              FlushViewEvents (case myFocusView s of Some a \<Rightarrow> a | None \<Rightarrow> v) True]
               @ handleViewRedraw h (case myFocusView s of Some a \<Rightarrow> a | None \<Rightarrow> v), s)"
  by (simp add: OcctQWidgetViewer_paintEvent_def Let_def logical_size_def)

lemma QW_paintEvent_resized:
  "myView s = Some v \<Longrightarrow> myWindow s = Some w \<Longrightarrow> myNativeHandle w = winId h \<Longrightarrow>
   logical_size h \<noteq> mySize w \<Longrightarrow>
   OcctQWidgetViewer_paintEvent h s
     = Some ([SetSize (win_id w) (fst (logical_size h)) (snd (logical_size h)),
              MustBeResized v, Invalidate v, DiagnosticInformation v True]
               @ concat (map (\<lambda>a. [MustBeResized a, Invalidate a]) (mySubviews s))
               @ [InvalidateImmediate (case myFocusView s of Some a \<Rightarrow> a | None \<Rightarrow> v),
                  FlushViewEvents (case myFocusView s of Some a \<Rightarrow> a | None \<Rightarrow> v) True]
               @ handleViewRedraw h (case myFocusView s of Some a \<Rightarrow> a | None \<Rightarrow> v),
             s\<lparr>myWindow := Some (w\<lparr>mySize := logical_size h\<rparr>), myGlInfo := gl_info h True\<rparr>)"
  by (simp add: OcctQWidgetViewer_paintEvent_def Let_def logical_size_def dumpGlInfo_bound)

section \<open>The handle guard of the paint callback (C1)\<close>

text \<open>
  C1, as stated: in a paint callback with the view and its window bound, a native handle
  that differs from the one recorded in the window makes the callback run \<open>initializeGL\<close>
  again and return without drawing, and with equal handles drawing proceeds.  The second
  half fails for the toolkit-managed viewer: with equal handles, \<open>paintGL\<close> on a host where
  \<open>InitWrapper\<close> fails returns without drawing.
\<close>

theorem C1_counterexample:
  "myView bound_session = Some 0
   \<and> map_option myNativeHandle (myWindow bound_session) = Some (winId (example_host 7 1 True False))
   \<and> map_option (draws \<circ> fst) (OcctQOpenGLWidgetViewer_paintGL (example_host 7 1 True False) bound_session)
       = Some False"
  by (simp add: OcctQOpenGLWidgetViewer_paintGL_def wrap_default_fbo_def bound_session_def
        example_host_def draws_def)

text \<open>
  C1, amended: in a paint callback with the view and its window bound, when the native
  handle differs from the recorded one, the callback logs a warning, runs \<open>initializeGL\<close>
  (which records the new handle, unless wrapping the GL context fails) and draws no frame;
  when the handles are equal, \<open>initializeGL\<close> is not run, the native-window viewer draws a
  frame, and the toolkit-managed viewer draws a frame exactly when \<open>InitWrapper\<close> succeeds.
\<close>

theorem C1_handle_guard:
  assumes "myView s = Some v" and "myWindow s = Some w"
  shows
  "(myNativeHandle w \<noteq> winId h \<longrightarrow>
      (\<exists>cs s'. OcctQOpenGLWidgetViewer_initializeGL h s = Some (cs, s')
           \<and> OcctQOpenGLWidgetViewer_paintGL h s = Some (warning_GL # cs, s')
           \<and> \<not> draws (warning_GL # cs)
           \<and> (glCtxInit h \<longrightarrow> map_option myNativeHandle (myWindow s') = Some (winId h)))
    \<and> (\<exists>cs s'. OcctQWidgetViewer_initializeGL h s = Some (cs, s')
           \<and> OcctQWidgetViewer_paintEvent h s = Some (warning_QW # cs, s')
           \<and> \<not> draws (warning_QW # cs)
           \<and> map_option myNativeHandle (myWindow s') = Some (winId h)))
   \<and> (myNativeHandle w = winId h \<longrightarrow>
      (\<exists>cs s'. OcctQOpenGLWidgetViewer_paintGL h s = Some (cs, s')
           \<and> \<not> list_ex is_surface_init cs \<and> draws cs = fboInitWrapper h)
    \<and> (\<exists>cs s'. OcctQWidgetViewer_paintEvent h s = Some (cs, s')
           \<and> \<not> list_ex is_surface_init cs \<and> draws cs))"
proof (intro conjI impI)
  assume ne: "myNativeHandle w \<noteq> winId h"
  show "\<exists>cs s'. OcctQOpenGLWidgetViewer_initializeGL h s = Some (cs, s')
           \<and> OcctQOpenGLWidgetViewer_paintGL h s = Some (warning_GL # cs, s')
           \<and> \<not> draws (warning_GL # cs)
           \<and> (glCtxInit h \<longrightarrow> map_option myNativeHandle (myWindow s') = Some (winId h))"
  proof (cases "glCtxInit h")
    case True
    then show ?thesis
      using assms ne
      by (simp add: GL_paintGL_moved GL_initializeGL_reuse draws_def warning_GL_def)
  next
    case False
    then show ?thesis
      using assms ne
      by (simp add: GL_paintGL_moved GL_initializeGL_fail draws_def warning_GL_def)
  qed
  show "\<exists>cs s'. OcctQWidgetViewer_initializeGL h s = Some (cs, s')
           \<and> OcctQWidgetViewer_paintEvent h s = Some (warning_QW # cs, s')
           \<and> \<not> draws (warning_QW # cs)
           \<and> map_option myNativeHandle (myWindow s') = Some (winId h)"
    using assms ne
    by (simp add: QW_paintEvent_moved QW_initializeGL_reuse draws_def warning_QW_def)
next
  assume eq: "myNativeHandle w = winId h"
  obtain cs1 s1 f where wr: "wrap_default_fbo s = (cs1, s1, f)"
    by (cases "wrap_default_fbo s") auto
  note pr = wrap_default_fbo_props [OF wr]
  show "\<exists>cs s'. OcctQOpenGLWidgetViewer_paintGL h s = Some (cs, s')
           \<and> \<not> list_ex is_surface_init cs \<and> draws cs = fboInitWrapper h"
  proof (cases "fboInitWrapper h")
    case False
    then show ?thesis
      using assms eq wr pr by (simp add: GL_paintGL_fbo_fail draws_def)
  next
    case True
    show ?thesis
    proof (cases "fboVPSize h = mySize w")
      case True
      with \<open>fboInitWrapper h\<close> show ?thesis
        using assms eq wr pr by (simp add: GL_paintGL_same_size draws_def)
    next
      case False
      with \<open>fboInitWrapper h\<close> show ?thesis
        using assms eq wr pr
        by (auto simp add: GL_paintGL_resized draws_def list_ex_iff)
    qed
  qed
  show "\<exists>cs s'. OcctQWidgetViewer_paintEvent h s = Some (cs, s')
           \<and> \<not> list_ex is_surface_init cs \<and> draws cs"
  proof (cases "logical_size h = mySize w")
    case True
    then show ?thesis
      using assms eq by (simp add: QW_paintEvent_same_size draws_def)
  next
    case False
    then show ?thesis
      using assms eq by (auto simp add: QW_paintEvent_resized draws_def list_ex_iff)
  qed
qed

theorem C1_witness:
  "map_option (draws \<circ> fst)
      (OcctQOpenGLWidgetViewer_paintGL (example_host 9 1 True True) bound_session) = Some False
   \<and> map_option (draws \<circ> fst)
      (OcctQWidgetViewer_paintEvent (example_host 9 1 True True) bound_session) = Some False
   \<and> map_option (draws \<circ> fst)
      (OcctQOpenGLWidgetViewer_paintGL (example_host 7 1 True True) bound_session) = Some True
   \<and> map_option (draws \<circ> fst)
      (OcctQWidgetViewer_paintEvent (example_host 7 1 True True) bound_session) = Some True"
  using C1_handle_guard [of bound_session 0
          "\<lparr>win_id = 0, myNativeHandle = 7, mySize = (800, 600), myIsVirtual = True\<rparr>"
          "example_host 9 1 True True"]
        C1_handle_guard [of bound_session 0
          "\<lparr>win_id = 0, myNativeHandle = 7, mySize = (800, 600), myIsVirtual = True\<rparr>"
          "example_host 7 1 True True"]
  by (auto simp add: bound_session_def example_host_def)

section \<open>Fatal failures (C7)\<close>

lemma GL_initializeGL_null:
  "glCtxInit h \<Longrightarrow> myView s = None \<Longrightarrow> OcctQOpenGLWidgetViewer_initializeGL h s = None"
  by (simp add: OcctQOpenGLWidgetViewer_initializeGL_def)

lemma QW_initializeGL_null:
  "myView s = None \<Longrightarrow> OcctQWidgetViewer_initializeGL h s = None"
  by (simp add: OcctQWidgetViewer_initializeGL_def)

lemma GL_initializeGL_calls:
  assumes "OcctQOpenGLWidgetViewer_initializeGL h s = Some (cs, s')"
  shows "fatal cs = (\<not> glCtxInit h)" and "\<not> draws cs"
proof -
  have "fatal cs = (\<not> glCtxInit h) \<and> \<not> draws cs"
  proof (cases "glCtxInit h")
    case False
    with assms show ?thesis
      by (auto simp add: GL_initializeGL_fail fatal_def draws_def)
  next
    case True
    show ?thesis
    proof (cases "myView s")
      case None
      with True assms show ?thesis by (simp add: GL_initializeGL_null)
    next
      case (Some v)
      with True assms show ?thesis
        by (cases "myWindow s")
           (auto simp add: GL_initializeGL_create GL_initializeGL_reuse fatal_def draws_def)
    qed
  qed
  then show "fatal cs = (\<not> glCtxInit h)" and "\<not> draws cs" by simp_all
qed

lemma QW_initializeGL_calls:
  assumes "OcctQWidgetViewer_initializeGL h s = Some (cs, s')"
  shows "\<not> fatal cs" and "\<not> draws cs"
proof -
  have "\<not> fatal cs \<and> \<not> draws cs"
  proof (cases "myView s")
    case None
    with assms show ?thesis by (simp add: QW_initializeGL_null)
  next
    case (Some v)
    with assms show ?thesis
      by (cases "myWindow s")
         (auto simp add: QW_initializeGL_create QW_initializeGL_reuse fatal_def draws_def)
  qed
  then show "\<not> fatal cs" and "\<not> draws cs" by simp_all
qed

lemma GL_paintGL_fatal:
  assumes "OcctQOpenGLWidgetViewer_paintGL h s = Some (cs, s')"
  shows "fatal cs =
           (myView s \<noteq> None
            \<and> (case myWindow s of
                 None \<Rightarrow> False
               | Some w \<Rightarrow> if myNativeHandle w \<noteq> winId h then \<not> glCtxInit h
                           else \<not> fboInitWrapper h))"
proof (cases "myView s")
  case None
  with assms show ?thesis by (auto simp add: GL_paintGL_unbound fatal_def)
next
  case (Some v)
  show ?thesis
  proof (cases "myWindow s")
    case None
    with assms show ?thesis by (auto simp add: GL_paintGL_unbound fatal_def)
  next
    case w: (Some w)
    show ?thesis
    proof (cases "myNativeHandle w = winId h")
      case False
      with assms Some w show ?thesis
        by (auto simp add: GL_paintGL_moved warning_GL_def fatal_def
              dest: GL_initializeGL_calls(1) split: option.splits)
    next
      case True
      obtain cs1 s1 f where wr: "wrap_default_fbo s = (cs1, s1, f)"
        by (cases "wrap_default_fbo s") auto
      note pr = wrap_default_fbo_props [OF wr]
      show ?thesis
      proof (cases "fboInitWrapper h")
        case False
        with assms Some w True wr pr show ?thesis
          by (auto simp add: GL_paintGL_fbo_fail fatal_def)
      next
        case ok: True
        show ?thesis
        proof (cases "fboVPSize h = mySize w")
          case True
          with assms Some w \<open>myNativeHandle w = winId h\<close> wr pr ok show ?thesis
            by (auto simp add: GL_paintGL_same_size fatal_def)
        next
          case False
          with assms Some w \<open>myNativeHandle w = winId h\<close> wr pr ok show ?thesis
            by (auto simp add: GL_paintGL_resized fatal_def list_ex_iff)
        qed
      qed
    qed
  qed
qed

lemma QW_paintEvent_fatal:
  assumes "OcctQWidgetViewer_paintEvent h s = Some (cs, s')"
  shows "\<not> fatal cs"
proof (cases "myView s")
  case None
  with assms show ?thesis by (auto simp add: QW_paintEvent_unbound fatal_def)
next
  case (Some v)
  show ?thesis
  proof (cases "myWindow s")
    case None
    with assms show ?thesis by (auto simp add: QW_paintEvent_unbound fatal_def)
  next
    case w: (Some w)
    show ?thesis
    proof (cases "myNativeHandle w = winId h")
      case False
      with assms Some w show ?thesis
        by (auto simp add: QW_paintEvent_moved warning_QW_def fatal_def
              dest: QW_initializeGL_calls(1) split: option.splits)
    next
      case True
      with assms Some w show ?thesis
        by (cases "logical_size h = mySize w")
           (auto simp add: QW_paintEvent_same_size QW_paintEvent_resized fatal_def list_ex_iff)
    qed
  qed
qed

text \<open>
  C7: when wrapping the GL context fails in \<open>initializeGL\<close>, or \<open>InitWrapper\<close> fails in
  \<open>paintGL\<close>, the callback ends with the failure message, the modal error dialog and the
  exit request with code 1, in this order, and draws no frame; in \<open>initializeGL\<close> and in
  the paint callbacks of both viewers no other condition opens a dialog or requests the
  exit.
\<close>

theorem C7_fatal_failures:
  "(\<not> glCtxInit h \<longrightarrow>
      (\<exists>pre. OcctQOpenGLWidgetViewer_initializeGL h s
                = Some (pre @ [Message_SendFail ''Error: OpenGl_Context is unable to wrap OpenGL context'',
                               QMessageBox_critical ''Failure'' ''OpenGl_Context is unable to wrap OpenGL context'',
                               QApplication_exit 1], s)
             \<and> \<not> draws pre))
   \<and> (\<forall>v w. myView s = Some v \<and> myWindow s = Some w \<and> myNativeHandle w \<noteq> winId h \<and> \<not> glCtxInit h \<longrightarrow>
      (\<exists>pre. OcctQOpenGLWidgetViewer_paintGL h s
                = Some (pre @ [Message_SendFail ''Error: OpenGl_Context is unable to wrap OpenGL context'',
                               QMessageBox_critical ''Failure'' ''OpenGl_Context is unable to wrap OpenGL context'',
                               QApplication_exit 1], s)
             \<and> \<not> draws pre))
   \<and> (\<forall>v w. myView s = Some v \<and> myWindow s = Some w \<and> myNativeHandle w = winId h \<and> \<not> fboInitWrapper h \<longrightarrow>
      (\<exists>pre s'. OcctQOpenGLWidgetViewer_paintGL h s
                = Some (pre @ [Message_SendFail ''Default FBO wrapper creation failed'',
                               QMessageBox_critical ''Failure'' ''Default FBO wrapper creation failed'',
                               QApplication_exit 1], s')
             \<and> \<not> draws pre))
   \<and> (\<forall>cs s'. OcctQOpenGLWidgetViewer_initializeGL h s = Some (cs, s') \<longrightarrow> fatal cs = (\<not> glCtxInit h))
   \<and> (\<forall>cs s'. OcctQOpenGLWidgetViewer_paintGL h s = Some (cs, s') \<longrightarrow>
         fatal cs = (myView s \<noteq> None
                     \<and> (case myWindow s of
                          None \<Rightarrow> False
                        | Some w \<Rightarrow> if myNativeHandle w \<noteq> winId h then \<not> glCtxInit h
                                    else \<not> fboInitWrapper h)))
   \<and> (\<forall>cs s'. OcctQWidgetViewer_initializeGL h s = Some (cs, s') \<longrightarrow> \<not> fatal cs)
   \<and> (\<forall>cs s'. OcctQWidgetViewer_paintEvent h s = Some (cs, s') \<longrightarrow> \<not> fatal cs)"
proof (intro conjI allI impI)
  assume "\<not> glCtxInit h"
  then show "\<exists>pre. OcctQOpenGLWidgetViewer_initializeGL h s
                = Some (pre @ [Message_SendFail ''Error: OpenGl_Context is unable to wrap OpenGL context'',
                               QMessageBox_critical ''Failure'' ''OpenGl_Context is unable to wrap OpenGL context'',
                               QApplication_exit 1], s)
             \<and> \<not> draws pre"
    by (intro exI [of _ "[OpenGl_Context_Init (myIsCoreProfile s)]"])
       (simp add: GL_initializeGL_fail draws_def)
next
  fix v w
  assume "myView s = Some v \<and> myWindow s = Some w \<and> myNativeHandle w \<noteq> winId h \<and> \<not> glCtxInit h"
  then show "\<exists>pre. OcctQOpenGLWidgetViewer_paintGL h s
                = Some (pre @ [Message_SendFail ''Error: OpenGl_Context is unable to wrap OpenGL context'',
                               QMessageBox_critical ''Failure'' ''OpenGl_Context is unable to wrap OpenGL context'',
                               QApplication_exit 1], s)
             \<and> \<not> draws pre"
    by (intro exI [of _ "[warning_GL, OpenGl_Context_Init (myIsCoreProfile s)]"])
       (simp add: GL_paintGL_moved GL_initializeGL_fail draws_def warning_GL_def)
next
  fix v w
  assume a: "myView s = Some v \<and> myWindow s = Some w \<and> myNativeHandle w = winId h \<and> \<not> fboInitWrapper h"
  obtain cs1 s1 f where wr: "wrap_default_fbo s = (cs1, s1, f)"
    by (cases "wrap_default_fbo s") auto
  note pr = wrap_default_fbo_props [OF wr]
  from a wr pr
  show "\<exists>pre s'. OcctQOpenGLWidgetViewer_paintGL h s
                = Some (pre @ [Message_SendFail ''Default FBO wrapper creation failed'',
                               QMessageBox_critical ''Failure'' ''Default FBO wrapper creation failed'',
                               QApplication_exit 1], s')
             \<and> \<not> draws pre"
    by (intro exI [of _ "cs1 @ [InitWrapper f]"] exI [of _ s1])
       (simp add: GL_paintGL_fbo_fail draws_def)
next
  fix cs s'
  assume "OcctQOpenGLWidgetViewer_initializeGL h s = Some (cs, s')"
  then show "fatal cs = (\<not> glCtxInit h)" by (rule GL_initializeGL_calls(1))
next
  fix cs s'
  assume "OcctQOpenGLWidgetViewer_paintGL h s = Some (cs, s')"
  then show "fatal cs = (myView s \<noteq> None
                     \<and> (case myWindow s of
                          None \<Rightarrow> False
                        | Some w \<Rightarrow> if myNativeHandle w \<noteq> winId h then \<not> glCtxInit h
                                    else \<not> fboInitWrapper h))"
    by (rule GL_paintGL_fatal)
next
  fix cs s'
  assume "OcctQWidgetViewer_initializeGL h s = Some (cs, s')"
  then show "\<not> fatal cs" by (rule QW_initializeGL_calls(1))
next
  fix cs s'
  assume "OcctQWidgetViewer_paintEvent h s = Some (cs, s')"
  then show "\<not> fatal cs" by (rule QW_paintEvent_fatal)
qed

theorem C7_witness:
  "OcctQOpenGLWidgetViewer_initializeGL (example_host 7 1 False True) (OcctQOpenGLWidgetViewer False)
     = Some ([OpenGl_Context_Init False,
              Message_SendFail ''Error: OpenGl_Context is unable to wrap OpenGL context'',
              QMessageBox_critical ''Failure'' ''OpenGl_Context is unable to wrap OpenGL context'',
              QApplication_exit 1], OcctQOpenGLWidgetViewer False)
   \<and> map_option (fatal \<circ> fst)
        (OcctQOpenGLWidgetViewer_paintGL (example_host 7 1 True False) bound_session) = Some True
   \<and> map_option (fatal \<circ> fst)
        (OcctQOpenGLWidgetViewer_paintGL (example_host 9 1 False True) bound_session) = Some True
   \<and> map_option (fatal \<circ> fst)
        (OcctQOpenGLWidgetViewer_paintGL (example_host 7 1 True True) bound_session) = Some False
   \<and> map_option (fatal \<circ> fst)
        (OcctQWidgetViewer_paintEvent (example_host 9 1 False False) bound_session) = Some False"
proof -
  let ?w = "\<lparr>win_id = 0, myNativeHandle = 7, mySize = (800, 600), myIsVirtual = True\<rparr>"
  have b: "myView bound_session = Some 0" "myWindow bound_session = Some ?w"
    by (simp_all add: bound_session_def)
  have 1: "\<not> glCtxInit (example_host 7 1 False True)"
    by (simp add: example_host_def)
  note t1 = C7_fatal_failures [of "example_host 7 1 False True" "OcctQOpenGLWidgetViewer False"]
  note t2 = C7_fatal_failures [of "example_host 7 1 True False" bound_session]
  note t3 = C7_fatal_failures [of "example_host 9 1 False True" bound_session]
  note t4 = C7_fatal_failures [of "example_host 7 1 True True" bound_session]
  note t5 = C7_fatal_failures [of "example_host 9 1 False False" bound_session]
  have c1: "OcctQOpenGLWidgetViewer_initializeGL (example_host 7 1 False True) (OcctQOpenGLWidgetViewer False)
     = Some ([OpenGl_Context_Init False,
              Message_SendFail ''Error: OpenGl_Context is unable to wrap OpenGL context'',
              QMessageBox_critical ''Failure'' ''OpenGl_Context is unable to wrap OpenGL context'',
              QApplication_exit 1], OcctQOpenGLWidgetViewer False)"
    using t1 1 by (simp add: GL_initializeGL_fail OcctQOpenGLWidgetViewer_def)
  have c2: "map_option (fatal \<circ> fst)
        (OcctQOpenGLWidgetViewer_paintGL (example_host 7 1 True False) bound_session) = Some True"
    using t2 b by (auto simp add: example_host_def)
  have c3: "map_option (fatal \<circ> fst)
        (OcctQOpenGLWidgetViewer_paintGL (example_host 9 1 False True) bound_session) = Some True"
    using t3 b by (auto simp add: example_host_def)
  obtain cs4 s4 where p4: "OcctQOpenGLWidgetViewer_paintGL (example_host 7 1 True True) bound_session = Some (cs4, s4)"
    by (simp add: OcctQOpenGLWidgetViewer_paintGL_def wrap_default_fbo_def bound_session_def
          example_host_def dumpGlInfo_def Let_def)
  have c4: "map_option (fatal \<circ> fst)
        (OcctQOpenGLWidgetViewer_paintGL (example_host 7 1 True True) bound_session) = Some False"
    using t4 b p4 by (auto simp add: example_host_def)
  obtain cs5 s5 where p5: "OcctQWidgetViewer_paintEvent (example_host 9 1 False False) bound_session = Some (cs5, s5)"
    by (simp add: OcctQWidgetViewer_paintEvent_def OcctQWidgetViewer_initializeGL_def
          bound_session_def example_host_def dumpGlInfo_def Let_def)
  have c5: "map_option (fatal \<circ> fst)
        (OcctQWidgetViewer_paintEvent (example_host 9 1 False False) bound_session) = Some False"
    using t5 p5 by auto
  from c1 c2 c3 c4 c5 show ?thesis by simp
qed

lemma split_session_reached:
  "map_option snd (splitSubviews bound_session) = Some split_session"
  by (simp add: splitSubviews_def bound_session_def split_session_def OnSubviewChanged_def)

section \<open>Key presses (C8)\<close>

text \<open>
  C8: for a key press delivered while the view exists, in both viewers: a key translated to
  Escape makes the handler request the exit of the application once and do nothing else,
  whatever the modifiers of the event; a key translated to F makes it fit all in the view
  with margin 0.01 and then request a repaint; any other key is passed to the handler of
  the base class.  The members of the widget are left as they are.
\<close>

theorem C8_key_press:
  assumes "myView s = Some v"
  shows
  "(qtKey2VKey t (key e) = Aspect_VKey_Escape \<longrightarrow>
      (\<forall>m. OcctQOpenGLWidgetViewer_keyPressEvent t (e\<lparr>key_modifiers := m\<rparr>) s = ([QApplication_exit 0], s)
         \<and> OcctQWidgetViewer_keyPressEvent t (e\<lparr>key_modifiers := m\<rparr>) s = ([QApplication_exit 0], s)))
   \<and> (qtKey2VKey t (key e) = Aspect_VKey_F \<longrightarrow>
      OcctQOpenGLWidgetViewer_keyPressEvent t e s = ([FitAll v (1 / 100) False, QWidget_update], s)
      \<and> OcctQWidgetViewer_keyPressEvent t e s = ([FitAll v (1 / 100) False, QWidget_update], s))
   \<and> (\<forall>k. qtKey2VKey t (key e) = Aspect_VKey_Other k \<longrightarrow>
      OcctQOpenGLWidgetViewer_keyPressEvent t e s = ([Base_keyPressEvent e], s)
      \<and> OcctQWidgetViewer_keyPressEvent t e s = ([Base_keyPressEvent e], s))"
  using assms
  by (simp add: OcctQOpenGLWidgetViewer_keyPressEvent_def OcctQWidgetViewer_keyPressEvent_def)

theorem C8_witness:
  "OcctQOpenGLWidgetViewer_keyPressEvent example_tools \<lparr>key = 16777216, key_modifiers = 3\<rparr> bound_session
     = ([QApplication_exit 0], bound_session)
   \<and> OcctQWidgetViewer_keyPressEvent example_tools \<lparr>key = 70, key_modifiers = 0\<rparr> bound_session
     = ([FitAll 0 (1 / 100) False, QWidget_update], bound_session)
   \<and> OcctQOpenGLWidgetViewer_keyPressEvent example_tools \<lparr>key = 65, key_modifiers = 0\<rparr> bound_session
     = ([Base_keyPressEvent \<lparr>key = 65, key_modifiers = 0\<rparr>], bound_session)"
proof -
  have v: "myView bound_session = Some 0" by (simp add: bound_session_def)
  have k: "qtKey2VKey example_tools 16777216 = Aspect_VKey_Escape"
    "qtKey2VKey example_tools 70 = Aspect_VKey_F"
    "qtKey2VKey example_tools 65 = Aspect_VKey_Other 65"
    by (simp_all add: example_tools_def)
  from C8_key_press [OF v, of example_tools "\<lparr>key = 16777216, key_modifiers = 0\<rparr>"]
       C8_key_press [OF v, of example_tools "\<lparr>key = 70, key_modifiers = 0\<rparr>"]
       C8_key_press [OF v, of example_tools "\<lparr>key = 65, key_modifiers = 0\<rparr>"] k
  show ?thesis by simp
qed

section \<open>Events while the view or its window is missing (C10)\<close>

text \<open>
  C10, as stated: the input handlers return without calling the viewer library when the
  view handle is null, the paint callback returns without drawing when the view or its
  window is null, and hence every event delivered before the first surface initialisation
  is a no-op.  The conclusion fails: the constructor creates the view, so before the first
  \<open>initializeGL\<close> only the window is missing and the input handlers run in full.  On the
  session as constructed, Escape requests the exit and a press of a mouse button reaches
  the view controller.
\<close>

theorem C10_counterexample:
  "myView (OcctQOpenGLWidgetViewer False) = Some 0
   \<and> myWindow (OcctQOpenGLWidgetViewer False) = None
   \<and> fst (OcctQOpenGLWidgetViewer_keyPressEvent example_tools \<lparr>key = 16777216, key_modifiers = 0\<rparr>
            (OcctQOpenGLWidgetViewer False)) = [QApplication_exit 0]
   \<and> list_ex is_renderer_call
        (fst (OcctQOpenGLWidgetViewer_mousePressEvent example_tools (example_renderer True None)
                (example_host 7 1 True True) \<lparr>pos = (10, 20), buttons = 1, modifiers = 0\<rparr>
                (OcctQOpenGLWidgetViewer False)))"
  by (simp add: OcctQOpenGLWidgetViewer_def OcctQOpenGLWidgetViewer_keyPressEvent_def
        OcctQOpenGLWidgetViewer_mousePressEvent_def example_tools_def example_renderer_def
        example_host_def updateView_def Let_def)

text \<open>
  C10, amended: in both viewers, when the view handle is null the key, mouse-press,
  mouse-release, mouse-move and wheel handlers call nothing of the viewer library (the
  mouse and wheel handlers only call the handler of the base class) and leave the members
  as they are; when the view or its window is null the paint callback does nothing at all.
  Between construction and the first surface initialisation the view is not null, so there
  only the paint callback is a no-op.
\<close>

theorem C10_null_guards:
  "(myView s = None \<longrightarrow>
      OcctQOpenGLWidgetViewer_keyPressEvent t ke s = ([], s)
      \<and> OcctQOpenGLWidgetViewer_mousePressEvent t r h me s = ([Base_mousePressEvent me], s)
      \<and> OcctQOpenGLWidgetViewer_mouseReleaseEvent t r h me s = ([Base_mouseReleaseEvent me], s)
      \<and> OcctQOpenGLWidgetViewer_mouseMoveEvent t r h me s = ([Base_mouseMoveEvent me], s)
      \<and> OcctQOpenGLWidgetViewer_wheelEvent r h we s = ([Base_wheelEvent we], s)
      \<and> OcctQWidgetViewer_keyPressEvent t ke s = ([], s)
      \<and> OcctQWidgetViewer_mousePressEvent t r me s = ([Base_mousePressEvent me], s)
      \<and> OcctQWidgetViewer_mouseReleaseEvent t r me s = ([Base_mouseReleaseEvent me], s)
      \<and> OcctQWidgetViewer_mouseMoveEvent t r me s = ([Base_mouseMoveEvent me], s)
      \<and> OcctQWidgetViewer_wheelEvent r we s = ([Base_wheelEvent we], s)
      \<and> \<not> list_ex is_renderer_call
            [Base_mousePressEvent me, Base_mouseReleaseEvent me, Base_mouseMoveEvent me,
             Base_wheelEvent we])
   \<and> (myView s = None \<or> myWindow s = None \<longrightarrow>
      OcctQOpenGLWidgetViewer_paintGL h s = Some ([], s)
      \<and> OcctQWidgetViewer_paintEvent h s = Some ([], s))
   \<and> myView (OcctQOpenGLWidgetViewer core) \<noteq> None
   \<and> myWindow (OcctQOpenGLWidgetViewer core) = None"
  by (auto simp add: OcctQOpenGLWidgetViewer_keyPressEvent_def
        OcctQOpenGLWidgetViewer_mousePressEvent_def OcctQOpenGLWidgetViewer_mouseReleaseEvent_def
        OcctQOpenGLWidgetViewer_mouseMoveEvent_def OcctQOpenGLWidgetViewer_wheelEvent_def
        OcctQWidgetViewer_keyPressEvent_def OcctQWidgetViewer_mousePressEvent_def
        OcctQWidgetViewer_mouseReleaseEvent_def OcctQWidgetViewer_mouseMoveEvent_def
        OcctQWidgetViewer_wheelEvent_def GL_paintGL_unbound QW_paintEvent_unbound
        OcctQOpenGLWidgetViewer_def)

theorem C10_witness:
  "OcctQOpenGLWidgetViewer_wheelEvent (example_renderer True (Some 2)) (example_host 7 1 True True)
      \<lparr>position = (double_of_int 1, double_of_int 2), angleDelta_y = 120\<rparr> (split_session\<lparr>myView := None\<rparr>)
     = ([Base_wheelEvent \<lparr>position = (double_of_int 1, double_of_int 2), angleDelta_y = 120\<rparr>], split_session\<lparr>myView := None\<rparr>)
   \<and> OcctQOpenGLWidgetViewer_keyPressEvent example_tools \<lparr>key = 16777216, key_modifiers = 0\<rparr>
        (split_session\<lparr>myView := None\<rparr>) = ([], split_session\<lparr>myView := None\<rparr>)
   \<and> OcctQOpenGLWidgetViewer_paintGL (example_host 7 1 True True) (OcctQOpenGLWidgetViewer False)
     = Some ([], OcctQOpenGLWidgetViewer False)
   \<and> OcctQWidgetViewer_paintEvent (example_host 7 1 True True) (split_session\<lparr>myView := None\<rparr>)
     = Some ([], split_session\<lparr>myView := None\<rparr>)"
proof -
  have n: "myView (split_session\<lparr>myView := None\<rparr>) = None" by simp
  have w: "myWindow (OcctQOpenGLWidgetViewer False) = None"
    by (simp add: OcctQOpenGLWidgetViewer_def)
  from C10_null_guards [of "split_session\<lparr>myView := None\<rparr>" example_tools
         "\<lparr>key = 16777216, key_modifiers = 0\<rparr>" "example_renderer True (Some 2)"
         "example_host 7 1 True True" _ "\<lparr>position = (double_of_int 1, double_of_int 2), angleDelta_y = 120\<rparr>"]
       C10_null_guards [of "OcctQOpenGLWidgetViewer False" _ _ _ "example_host 7 1 True True"]
       n w
  show ?thesis by simp
qed

section \<open>The recorded size after a paint callback (C3)\<close>

lemma bound_session_reached_QW:
  "map_option snd (OcctQWidgetViewer (example_host 7 2 True True)) = Some bound_session"
  by (simp add: OcctQWidgetViewer_def OcctQWidgetViewer_initializeGL_def dumpGlInfo_def
        example_host_def bound_session_def Let_def)

lemma GL_paintGL_draws:
  assumes "OcctQOpenGLWidgetViewer_paintGL h s = Some (cs, s')" and "draws cs"
  shows "\<exists>v w. myView s = Some v \<and> myWindow s = Some w \<and> myNativeHandle w = winId h
           \<and> fboInitWrapper h"
proof (cases "myView s")
  case None
  with assms show ?thesis by (auto simp add: GL_paintGL_unbound draws_def)
next
  case (Some v)
  show ?thesis
  proof (cases "myWindow s")
    case None
    with assms show ?thesis by (auto simp add: GL_paintGL_unbound draws_def)
  next
    case w: (Some w)
    show ?thesis
    proof (cases "myNativeHandle w = winId h")
      case False
      with assms Some w show ?thesis
        by (auto simp add: GL_paintGL_moved warning_GL_def draws_def
              dest: GL_initializeGL_calls(2) split: option.splits)
    next
      case True
      obtain cs1 s1 f where wr: "wrap_default_fbo s = (cs1, s1, f)"
        by (cases "wrap_default_fbo s") auto
      note pr = wrap_default_fbo_props [OF wr]
      show ?thesis
      proof (cases "fboInitWrapper h")
        case False
        with assms Some w True wr pr show ?thesis
          by (auto simp add: GL_paintGL_fbo_fail draws_def)
      next
        case True
        with Some w \<open>myNativeHandle w = winId h\<close> show ?thesis by simp
      qed
    qed
  qed
qed

lemma QW_paintEvent_draws:
  assumes "OcctQWidgetViewer_paintEvent h s = Some (cs, s')" and "draws cs"
  shows "\<exists>v w. myView s = Some v \<and> myWindow s = Some w \<and> myNativeHandle w = winId h"
proof (cases "myView s")
  case None
  with assms show ?thesis by (auto simp add: QW_paintEvent_unbound draws_def)
next
  case (Some v)
  show ?thesis
  proof (cases "myWindow s")
    case None
    with assms show ?thesis by (auto simp add: QW_paintEvent_unbound draws_def)
  next
    case w: (Some w)
    show ?thesis
    proof (cases "myNativeHandle w = winId h")
      case False
      with assms Some w show ?thesis
        by (auto simp add: QW_paintEvent_moved warning_QW_def draws_def
              dest: QW_initializeGL_calls(2) split: option.splits)
    next
      case True
      with Some w show ?thesis by simp
    qed
  qed
qed

lemma GL_paintGL_resize_step:
  assumes "myView s = Some v" and "myWindow s = Some w" and "myNativeHandle w = winId h"
    and "fboInitWrapper h" and "OcctQOpenGLWidgetViewer_paintGL h s = Some (cs, s')"
  shows "recorded_size s' = Some (fboVPSize h)"
    and "fboVPSize h \<noteq> mySize w \<Longrightarrow>
           SetSize (win_id w) (fst (fboVPSize h)) (snd (fboVPSize h)) \<in> set cs
           \<and> MustBeResized v \<in> set cs \<and> Invalidate v \<in> set cs
           \<and> (\<forall>a\<in>set (mySubviews s). MustBeResized a \<in> set cs \<and> Invalidate a \<in> set cs)
           \<and> DiagnosticInformation v True \<in> set cs \<and> myGlInfo s' = gl_info h True
           \<and> \<not> list_ex is_log_info cs"
    and "fboVPSize h = mySize w \<Longrightarrow> \<not> list_ex is_resize_call cs \<and> myGlInfo s' = myGlInfo s"
proof -
  obtain cs1 s1 f where wr: "wrap_default_fbo s = (cs1, s1, f)"
    by (cases "wrap_default_fbo s") auto
  note pr = wrap_default_fbo_props [OF wr]
  have c1: "\<not> list_ex is_log_info cs1 \<and> \<not> list_ex is_resize_call cs1"
    using wr by (auto simp add: wrap_default_fbo_def split: option.splits)
  show "recorded_size s' = Some (fboVPSize h)"
    using assms wr pr
    by (cases "fboVPSize h = mySize w")
       (auto simp add: GL_paintGL_same_size GL_paintGL_resized recorded_size_def)
  show "SetSize (win_id w) (fst (fboVPSize h)) (snd (fboVPSize h)) \<in> set cs
           \<and> MustBeResized v \<in> set cs \<and> Invalidate v \<in> set cs
           \<and> (\<forall>a\<in>set (mySubviews s). MustBeResized a \<in> set cs \<and> Invalidate a \<in> set cs)
           \<and> DiagnosticInformation v True \<in> set cs \<and> myGlInfo s' = gl_info h True
           \<and> \<not> list_ex is_log_info cs" if "fboVPSize h \<noteq> mySize w"
    using assms wr pr c1 that
    by (auto simp add: GL_paintGL_resized list_ex_iff)
  show "\<not> list_ex is_resize_call cs \<and> myGlInfo s' = myGlInfo s" if "fboVPSize h = mySize w"
    using assms wr pr c1 that
    by (auto simp add: GL_paintGL_same_size list_ex_iff)
qed

lemma QW_paintEvent_resize_step:
  assumes "myView s = Some v" and "myWindow s = Some w" and "myNativeHandle w = winId h"
    and "OcctQWidgetViewer_paintEvent h s = Some (cs, s')"
  shows "recorded_size s' = Some (logical_size h)"
    and "logical_size h \<noteq> mySize w \<Longrightarrow>
           SetSize (win_id w) (fst (logical_size h)) (snd (logical_size h)) \<in> set cs
           \<and> MustBeResized v \<in> set cs \<and> Invalidate v \<in> set cs
           \<and> (\<forall>a\<in>set (mySubviews s). MustBeResized a \<in> set cs \<and> Invalidate a \<in> set cs)
           \<and> DiagnosticInformation v True \<in> set cs \<and> myGlInfo s' = gl_info h True
           \<and> \<not> list_ex is_log_info cs"
    and "logical_size h = mySize w \<Longrightarrow> \<not> list_ex is_resize_call cs \<and> myGlInfo s' = myGlInfo s"
proof -
  show "recorded_size s' = Some (logical_size h)"
    using assms
    by (cases "logical_size h = mySize w")
       (auto simp add: QW_paintEvent_same_size QW_paintEvent_resized recorded_size_def)
  show "SetSize (win_id w) (fst (logical_size h)) (snd (logical_size h)) \<in> set cs
           \<and> MustBeResized v \<in> set cs \<and> Invalidate v \<in> set cs
           \<and> (\<forall>a\<in>set (mySubviews s). MustBeResized a \<in> set cs \<and> Invalidate a \<in> set cs)
           \<and> DiagnosticInformation v True \<in> set cs \<and> myGlInfo s' = gl_info h True
           \<and> \<not> list_ex is_log_info cs" if "logical_size h \<noteq> mySize w"
    using assms that
    by (auto simp add: QW_paintEvent_resized list_ex_iff)
  show "\<not> list_ex is_resize_call cs \<and> myGlInfo s' = myGlInfo s" if "logical_size h = mySize w"
    using assms that
    by (auto simp add: QW_paintEvent_same_size list_ex_iff)
qed

text \<open>
  C3, as stated: after the paint callback that follows any resize events, the size recorded
  in the window equals the size of the host in device pixels.  This fails for the
  native-window viewer, which records the rectangle of the widget in logical pixels: at
  device pixel ratio 2, after a resize to 1000 by 700 logical pixels the paint callback
  draws a frame and records (1000, 700), while the size in device pixels is (2000, 1400).
\<close>

theorem C3_counterexample:
  "map_option (recorded_size \<circ> snd)
      (qw_deliver_all example_tools [QEv_resizeEvent, QEv_paintEvent resized_host] bound_session)
     = Some (Some (1000, 700))
   \<and> map_option (draws \<circ> fst)
      (qw_deliver_all example_tools [QEv_resizeEvent, QEv_paintEvent resized_host] bound_session)
     = Some True
   \<and> device_pixel_size resized_host = (2000, 1400)
   \<and> fboVPSize resized_host = (2000, 1400)"
  by (simp add: OcctQWidgetViewer_resizeEvent_def OcctQWidgetViewer_paintEvent_def dumpGlInfo_def
        bound_session_def resized_host_def example_host_def device_pixel_size_def
        recorded_size_def draws_def Let_def)

text \<open>
  C3, amended: after every paint callback that draws a frame, the size recorded in the
  window equals the size measured by that callback, which is the viewport size of the
  wrapped framebuffer (device pixels) in the toolkit-managed viewer and the rectangle of
  the widget, right minus left by bottom minus top in logical pixels, in the native-window
  viewer.  Within such a callback, whenever the measured size differs from the recorded
  one, the recorded size is updated, the primary view and every sub-view are marked as
  resized and invalidated, and the diagnostic text is derived again and stored without
  being logged; when the sizes are equal none of this is done.
\<close>

theorem C3_recorded_size:
  "(\<forall>cs s'. OcctQOpenGLWidgetViewer_paintGL h s = Some (cs, s') \<and> draws cs \<longrightarrow>
       recorded_size s' = Some (fboVPSize h)
       \<and> (\<forall>v w. myView s = Some v \<and> myWindow s = Some w \<and> fboVPSize h \<noteq> mySize w \<longrightarrow>
             SetSize (win_id w) (fst (fboVPSize h)) (snd (fboVPSize h)) \<in> set cs
             \<and> MustBeResized v \<in> set cs \<and> Invalidate v \<in> set cs
             \<and> (\<forall>a\<in>set (mySubviews s). MustBeResized a \<in> set cs \<and> Invalidate a \<in> set cs)
             \<and> DiagnosticInformation v True \<in> set cs \<and> myGlInfo s' = gl_info h True
             \<and> \<not> list_ex is_log_info cs)
       \<and> (recorded_size s = Some (fboVPSize h) \<longrightarrow>
             \<not> list_ex is_resize_call cs \<and> myGlInfo s' = myGlInfo s))
   \<and> (\<forall>cs s'. OcctQWidgetViewer_paintEvent h s = Some (cs, s') \<and> draws cs \<longrightarrow>
       recorded_size s' = Some (logical_size h)
       \<and> (\<forall>v w. myView s = Some v \<and> myWindow s = Some w \<and> logical_size h \<noteq> mySize w \<longrightarrow>
             SetSize (win_id w) (fst (logical_size h)) (snd (logical_size h)) \<in> set cs
             \<and> MustBeResized v \<in> set cs \<and> Invalidate v \<in> set cs
             \<and> (\<forall>a\<in>set (mySubviews s). MustBeResized a \<in> set cs \<and> Invalidate a \<in> set cs)
             \<and> DiagnosticInformation v True \<in> set cs \<and> myGlInfo s' = gl_info h True
             \<and> \<not> list_ex is_log_info cs)
       \<and> (recorded_size s = Some (logical_size h) \<longrightarrow>
             \<not> list_ex is_resize_call cs \<and> myGlInfo s' = myGlInfo s))"
  (is "(\<forall>cs s'. ?A cs s' \<longrightarrow> ?B cs s') \<and> (\<forall>cs s'. ?C cs s' \<longrightarrow> ?D cs s')")
proof -
  have GL: "?B cs s'" if a: "?A cs s'" for cs s'
  proof -
    from a obtain v w where b: "myView s = Some v" "myWindow s = Some w"
        "myNativeHandle w = winId h" "fboInitWrapper h"
      using GL_paintGL_draws [of h s cs s'] by auto
    from a have p: "OcctQOpenGLWidgetViewer_paintGL h s = Some (cs, s')" by simp
    note r = GL_paintGL_resize_step [OF b p]
    show ?thesis
      using r b by (simp add: recorded_size_def)
  qed
  have QW: "?D cs s'" if a: "?C cs s'" for cs s'
  proof -
    from a obtain v w where b: "myView s = Some v" "myWindow s = Some w"
        "myNativeHandle w = winId h"
      using QW_paintEvent_draws [of h s cs s'] by auto
    from a have p: "OcctQWidgetViewer_paintEvent h s = Some (cs, s')" by simp
    note r = QW_paintEvent_resize_step [OF b p]
    show ?thesis
      using r b by (simp add: recorded_size_def)
  qed
  from GL QW show ?thesis by blast
qed

theorem C3_witness:
  "map_option (recorded_size \<circ> snd) (OcctQOpenGLWidgetViewer_paintGL resized_host bound_session)
     = Some (Some (2000, 1400))
   \<and> map_option (recorded_size \<circ> snd) (OcctQWidgetViewer_paintEvent resized_host bound_session)
     = Some (Some (1000, 700))"
proof -
  have g: "OcctQOpenGLWidgetViewer_paintGL resized_host bound_session
     = Some ([OcctQtFrameBuffer_new 0, SetDefaultFrameBuffer 0, InitWrapper 0, SetSize 0 2000 1400,
              MustBeResized 0, Invalidate 0, DiagnosticInformation 0 True,
              InvalidateImmediate 0, FlushViewEvents 0 True, AIS_ViewController_handleViewRedraw 0],
             bound_session\<lparr>glDefaultFbo := Some 0, nbFrameBuffers := 1,
                myWindow := Some \<lparr>win_id = 0, myNativeHandle = 7, mySize = (2000, 1400), myIsVirtual = True\<rparr>\<rparr>)"
    by (simp add: OcctQOpenGLWidgetViewer_paintGL_def wrap_default_fbo_def dumpGlInfo_def
          bound_session_def resized_host_def example_host_def handleViewRedraw_def Let_def)
  have q: "OcctQWidgetViewer_paintEvent resized_host bound_session
     = Some ([SetSize 0 1000 700, MustBeResized 0, Invalidate 0, DiagnosticInformation 0 True,
              InvalidateImmediate 0, FlushViewEvents 0 True, AIS_ViewController_handleViewRedraw 0],
             bound_session\<lparr>myWindow := Some \<lparr>win_id = 0, myNativeHandle = 7, mySize = (1000, 700), myIsVirtual = True\<rparr>\<rparr>)"
    by (simp add: OcctQWidgetViewer_paintEvent_def dumpGlInfo_def
          bound_session_def resized_host_def example_host_def handleViewRedraw_def Let_def)
  have s: "fboVPSize resized_host = (2000, 1400)" "logical_size resized_host = (1000, 700)"
    by (simp_all add: resized_host_def example_host_def logical_size_def)
  from C3_recorded_size [of resized_host bound_session] g q s
  show ?thesis by (simp add: draws_def)
qed

section \<open>What the surface-creation path displays (C5)\<close>

text \<open>
  C5 says that the view cube and the placeholder box are displayed on the first run of
  \<open>initializeGL\<close> only.  The view cube is displayed in the branch that creates the window;
  the box is displayed after both branches, so every later run displays one more box.
  Here the first \<open>initializeGL\<close> is followed by a paint callback on a host whose native
  handle has changed from 7 to 9: the window of the view is reused with the new handle,
  the view cube is not displayed again, and a second box is displayed.  The native-window
  viewer does the same.
\<close>

theorem C5_reentry_displays_box_again:
  "deliver_all example_tools
      [Ev_initializeGL (example_host 7 1 True True), Ev_paintGL (example_host 9 1 True True)]
      (OcctQOpenGLWidgetViewer False)
     = Some ([OpenGl_Context_Init False, Aspect_NeutralWindow_new 0, SetVirtual 0 True,
              SetNativeHandle 0 7, SetSize 0 800 600, V3d_View_SetWindow 0 0,
              DiagnosticInformation 0 True,
              Message_SendInfo (''GLvendor: ACME'' @ [CHR 0x0A] @ ''GLversion: 4.5''),
              AIS_Display AIS_ViewCube, AIS_Display dummy_shape,
              warning_GL, OpenGl_Context_Init False,
              SetNativeHandle 0 9, SetSize 0 800 600, V3d_View_SetWindow 0 0,
              DiagnosticInformation 0 True,
              Message_SendInfo (''GLvendor: ACME'' @ [CHR 0x0A] @ ''GLversion: 4.5''),
              AIS_Display dummy_shape],
             bound_session
               \<lparr>myWindow := Some \<lparr>win_id = 0, myNativeHandle = 9, mySize = (800, 600),
                                   myIsVirtual = True\<rparr>,
                displayed := [AIS_ViewCube, dummy_shape, dummy_shape]\<rparr>)
   \<and> map_option (displayed \<circ> snd)
        (OcctQWidgetViewer_paintEvent (example_host 9 1 True True) bound_session)
     = Some [AIS_ViewCube, dummy_shape, dummy_shape]"
  by (simp add: OcctQOpenGLWidgetViewer_def OcctQOpenGLWidgetViewer_initializeGL_def
        OcctQOpenGLWidgetViewer_paintGL_def OcctQWidgetViewer_paintEvent_def
        OcctQWidgetViewer_initializeGL_def
        dumpGlInfo_def example_host_def bound_session_def Let_def)

section \<open>Multiplication in double\<close>

lemma bit_length_gt: "2 ^ k \<le> n \<Longrightarrow> k < bit_length n"
proof (induction k arbitrary: n)
  case 0
  then have "n \<noteq> 0" by auto
  then show ?case by (subst bit_length.simps) simp
next
  case (Suc k)
  have "(0::nat) < 2 ^ Suc k" by simp
  with Suc.prems have "n \<noteq> 0" by linarith
  from Suc.prems have "2 ^ k \<le> n div 2" by simp
  from Suc.IH [OF this] \<open>n \<noteq> 0\<close> show ?case
    by (subst bit_length.simps) simp
qed

lemma bit_length_eq: "2 ^ k \<le> n \<Longrightarrow> n < 2 ^ Suc k \<Longrightarrow> bit_length n = Suc k"
  using bit_length_gt [of k n] bit_length_le [of n "Suc k"] by simp

text \<open>A product whose mantissa has \<open>53 + k\<close> bits loses its last \<open>k\<close> bits.\<close>

lemma round_double_long:
  assumes "2 ^ (52 + k) \<le> nat \<bar>m\<bar>" and "nat \<bar>m\<bar> < 2 ^ (53 + k)" and "0 < k"
  shows "round_double m e =
           Double (sgn m * int (if 2 ^ k < 2 * (nat \<bar>m\<bar> mod 2 ^ k)
                                    \<or> (2 * (nat \<bar>m\<bar> mod 2 ^ k) = 2 ^ k \<and> odd (nat \<bar>m\<bar> div 2 ^ k))
                                then Suc (nat \<bar>m\<bar> div 2 ^ k) else nat \<bar>m\<bar> div 2 ^ k))
                  (e + int k)"
proof -
  have "bit_length (nat \<bar>m\<bar>) = Suc (52 + k)"
    using assms(1,2) by (intro bit_length_eq) simp_all
  then have "bit_length (nat \<bar>m\<bar>) - 53 = k" by simp
  with assms(3) show ?thesis by (simp add: round_double_def Let_def)
qed

lemma bit_length_bound: "n < 2 ^ bit_length n"
  using bit_length_gt [of "bit_length n" n] by (cases "n < 2 ^ bit_length n") simp_all

text \<open>The rounded product is a nearest number with a mantissa of 53 bits: the mantissa is
  at most \<open>2^53\<close> and the error is at most half a unit of the last place kept.\<close>

lemma round_double_nearest:
  assumes "round_double m e = Double m' e'"
  shows "e \<le> e' \<and> \<bar>m'\<bar> \<le> 2 ^ 53 \<and> 2 * \<bar>m - m' * 2 ^ nat (e' - e)\<bar> \<le> 2 ^ nat (e' - e)"
proof -
  define n where "n = nat \<bar>m\<bar>"
  define k where "k = bit_length n - 53"
  have nb: "n < 2 ^ bit_length n" by (rule bit_length_bound)
  have mn: "m = sgn m * int n" by (simp add: n_def sgn_if)
  show ?thesis
  proof (cases "k = 0")
    case True
    then have "bit_length n \<le> 53" by (simp add: k_def)
    then have "(2::nat) ^ bit_length n \<le> 2 ^ 53" by (intro power_increasing) simp_all
    with nb have "n < 2 ^ 53" by linarith
    then have "\<bar>m\<bar> < 2 ^ 53" by (simp add: n_def nat_less_iff)
    moreover from \<open>bit_length n \<le> 53\<close> assms have "m' = m" "e' = e"
      by (simp_all add: round_double_def n_def Let_def)
    ultimately show ?thesis by simp
  next
    case False
    then have bl: "bit_length n = 53 + k" by (simp add: k_def)
    define q where "q = n div 2 ^ k"
    define r where "r = n mod 2 ^ k"
    define q' where "q' = (if 2 ^ k < 2 * r \<or> (2 * r = 2 ^ k \<and> odd q) then Suc q else q)"
    have lo: "2 ^ (52 + k) \<le> n"
      using bit_length_le [of n "52 + k"] bl by (cases "n < 2 ^ (52 + k)") simp_all
    have hi: "n < 2 ^ (53 + k)" using nb bl by simp
    from False have "0 < k" by simp
    from round_double_long [of k m e, folded n_def, OF lo hi this]
    have "round_double m e = Double (sgn m * int q') (e + int k)"
      by (simp add: q_def r_def q'_def)
    with assms have res: "m' = sgn m * int q'" "e' = e + int k"
      by simp_all
    have nqr: "n = q * 2 ^ k + r" by (simp only: q_def r_def div_mult_mod_eq)
    have rk: "r < 2 ^ k" by (simp add: r_def)
    from nb bl have "n < 2 ^ 53 * 2 ^ k" by (simp add: power_add)
    then have "q < 2 ^ 53" by (simp add: q_def less_mult_imp_div_less)
    then have q'b: "q' \<le> 2 ^ 53" by (simp add: q'_def)
    have err: "2 * \<bar>int n - int q' * 2 ^ k\<bar> \<le> 2 ^ k"
    proof (cases "q' = q")
      case True
      then have "\<not> 2 ^ k < 2 * r" by (auto simp add: q'_def split: if_splits)
      then have "2 * r \<le> 2 ^ k" by simp
      then have "int (2 * r) \<le> int (2 ^ k)" by (simp only: of_nat_le_iff)
      then have "2 * int r \<le> 2 ^ k" by simp
      moreover have "int n - int q' * 2 ^ k = int r" using True nqr by simp
      ultimately show ?thesis by simp
    next
      case False
      then have s: "q' = Suc q" and h: "2 ^ k \<le> 2 * r"
        by (auto simp add: q'_def split: if_splits)
      have "int n - int q' * 2 ^ k = int r - 2 ^ k"
        using s nqr by (simp add: algebra_simps)
      moreover from rk have "int r < int (2 ^ k)" by (simp only: of_nat_less_iff)
      then have "int r < 2 ^ k" by simp
      moreover from h have "int (2 ^ k) \<le> int (2 * r)" by (simp only: of_nat_le_iff)
      then have "(2::int) ^ k \<le> 2 * int r" by simp
      ultimately show ?thesis by simp
    qed
    have "m - m' * 2 ^ nat (e' - e) = sgn m * (int n - int q' * 2 ^ k)"
      using res mn by (simp add: algebra_simps)
    then have "\<bar>m - m' * 2 ^ nat (e' - e)\<bar> \<le> \<bar>int n - int q' * 2 ^ k\<bar>"
      by (simp add: abs_mult sgn_if)
    then have "2 * \<bar>m - m' * 2 ^ nat (e' - e)\<bar> \<le> 2 * \<bar>int n - int q' * 2 ^ k\<bar>"
      by simp
    also note err
    finally have "2 * \<bar>m - m' * 2 ^ nat (e' - e)\<bar> \<le> 2 ^ k" .
    moreover have "\<bar>m'\<bar> \<le> 2 ^ 53"
      using res(1) q'b by (simp add: abs_mult sgn_if flip: of_nat_le_iff)
    ultimately show ?thesis using res(2) by simp
  qed
qed

lemma double_value_neg_exponent:
  "double_value (Double m (- int k)) = real_of_int m / 2 ^ k"
  by (simp add: powr_minus powr_realpow divide_inverse)

lemma ratio_1_4_nearest: "\<bar>double_value ratio_1_4 - 14 / 10\<bar> < 1 / 2 ^ 53"
proof -
  have "double_value ratio_1_4 = real_of_int 6305039478318694 / 2 ^ 52"
    using double_value_neg_exponent [of 6305039478318694 52] by (simp add: ratio_1_4_def)
  then show ?thesis by simp
qed

lemma mul_1_4_45: "to_int (dmul (double_of_int 45) ratio_1_4) = 62"
  by (simp add: double_of_int_def ratio_1_4_def round_double_long [where k = 5])

lemma mul_1_4_5: "to_int (dmul (double_of_int 5) ratio_1_4) = 7"
  by (simp add: double_of_int_def ratio_1_4_def round_double_long [where k = 2])

lemma mul_1_4_500: "to_int (dmul (double_of_int 500) ratio_1_4) = 700"
  by (simp add: double_of_int_def ratio_1_4_def round_double_long [where k = 9])

lemma mul_1_4_499: "to_int (dmul (double_of_int 499) ratio_1_4) = 698"
  by (simp add: double_of_int_def ratio_1_4_def round_double_long [where k = 9])

lemma mul_1_4_50: "to_int (dmul (double_of_int 50) ratio_1_4) = 70"
  by (simp add: double_of_int_def ratio_1_4_def round_double_long [where k = 6])

lemma to_int_truncates:
  "to_int d = (if 0 \<le> double_value d then \<lfloor>double_value d\<rfloor> else \<lceil>double_value d\<rceil>)"
proof (cases d)
  case (Double m e)
  show ?thesis
  proof (cases "0 \<le> e")
    case True
    define x where "x = m * 2 ^ nat e"
    from True have v: "double_value d = real_of_int x"
      using Double by (simp add: x_def powr_realpow [symmetric])
    from True have t: "to_int d = x"
      using Double by (simp add: x_def)
    show ?thesis
      unfolding v t by simp
  next
    case False
    define k where "k = nat (- e)"
    from False have e: "e = - int k" by (simp add: k_def)
    have v: "double_value d = real_of_int m / 2 ^ k"
      using Double e double_value_neg_exponent [of m k] by simp
    have p: "(2::real) ^ k = real_of_int (2 ^ k)" by simp
    show ?thesis
    proof (cases "0 \<le> m")
      case True
      then have "0 \<le> double_value d" by (simp add: v)
      moreover have "\<lfloor>real_of_int m / 2 ^ k\<rfloor> = m div 2 ^ k"
        unfolding p by (rule floor_divide_of_int_eq)
      moreover have "to_int d = sgn m * (m div 2 ^ k)"
        using Double False True by (simp add: k_def)
      ultimately show ?thesis
        using True by (cases "m = 0") (simp_all add: v)
    next
      case neg: False
      then have lt: "double_value d < 0" by (simp add: v divide_neg_pos)
      have "\<lceil>real_of_int m / 2 ^ k\<rceil> = - \<lfloor>real_of_int (- m) / 2 ^ k\<rfloor>"
        by (simp add: ceiling_def)
      also have "\<lfloor>real_of_int (- m) / 2 ^ k\<rfloor> = (- m) div 2 ^ k"
        unfolding p by (rule floor_divide_of_int_eq)
      finally have c: "\<lceil>real_of_int m / 2 ^ k\<rceil> = - ((- m) div 2 ^ k)" .
      have "to_int d = - ((- m) div 2 ^ k)"
        using Double False neg by (simp add: k_def)
      with c lt show ?thesis by (simp add: v)
    qed
  qed
qed

section \<open>Pointer events (C9)\<close>

text \<open>
  C9, as stated: for every pointer press, release and move, the position forwarded to the
  view controller is the logical position of the event scaled by the device pixel ratio.
  This fails for the native-window viewer, whose handlers never read the ratio: on a
  display with ratio 2 a press at (10, 20) is forwarded as (10, 20), not as (20, 40).
\<close>

theorem C9_counterexample:
  "fst (OcctQWidgetViewer_mousePressEvent example_tools (example_renderer False None)
          \<lparr>pos = (10, 20), buttons = 1, modifiers = 0\<rparr> bound_session)
     = [Base_mousePressEvent \<lparr>pos = (10, 20), buttons = 1, modifiers = 0\<rparr>,
        UpdateMouseButtons (10, 20) 1 0 False]
   \<and> scaled_to_device_pixels (devicePixelRatioF (example_host 7 2 True True)) (10, 20) = (20, 40)"
  by (simp add: OcctQWidgetViewer_mousePressEvent_def bound_session_def example_tools_def
        example_renderer_def example_host_def scaled_to_device_pixels_def)

text \<open>
  C9, amended: for every pointer press, release and move delivered while the view exists,
  the handler calls the handler of the base class and then one entry point of the view
  controller (\<open>UpdateMouseButtons\<close> for press and release, \<open>UpdateMousePosition\<close> for
  move) with the translated buttons and modifiers of the event and with a position that is,
  in the native-window viewer, the logical position as it is, and, in the toolkit-managed
  viewer, the logical position with each coordinate multiplied by the device pixel ratio
  in \<open>double\<close> arithmetic (the product rounded to the nearest \<open>double\<close>) and then cut to
  its whole part, where that fits in an \<open>int\<close>; a repaint is requested if and only if the
  controller reports a change.
\<close>

theorem C9_pointer_events:
  assumes "myView s = Some v"
  shows
  "(fits_Vec2i (scaled_to_device_pixels (devicePixelRatioF h) (pos e)) \<longrightarrow>
      OcctQOpenGLWidgetViewer_mousePressEvent t r h e s
        = ([Base_mousePressEvent e,
            UpdateMouseButtons (scaled_to_device_pixels (devicePixelRatioF h) (pos e))
              (qtMouseButtons2VKeys t (buttons e)) (qtMouseModifiers2VKeys t (modifiers e)) False]
           @ (if UpdateMouseButtons_changed r (scaled_to_device_pixels (devicePixelRatioF h) (pos e))
                   (qtMouseButtons2VKeys t (buttons e)) (qtMouseModifiers2VKeys t (modifiers e))
              then [QWidget_update] else []), s)
      \<and> OcctQOpenGLWidgetViewer_mouseReleaseEvent t r h e s
        = ([Base_mouseReleaseEvent e,
            UpdateMouseButtons (scaled_to_device_pixels (devicePixelRatioF h) (pos e))
              (qtMouseButtons2VKeys t (buttons e)) (qtMouseModifiers2VKeys t (modifiers e)) False]
           @ (if UpdateMouseButtons_changed r (scaled_to_device_pixels (devicePixelRatioF h) (pos e))
                   (qtMouseButtons2VKeys t (buttons e)) (qtMouseModifiers2VKeys t (modifiers e))
              then [QWidget_update] else []), s)
      \<and> OcctQOpenGLWidgetViewer_mouseMoveEvent t r h e s
        = ([Base_mouseMoveEvent e,
            UpdateMousePosition (scaled_to_device_pixels (devicePixelRatioF h) (pos e))
              (qtMouseButtons2VKeys t (buttons e)) (qtMouseModifiers2VKeys t (modifiers e)) False]
           @ (if UpdateMousePosition_changed r (scaled_to_device_pixels (devicePixelRatioF h) (pos e))
                   (qtMouseButtons2VKeys t (buttons e)) (qtMouseModifiers2VKeys t (modifiers e))
              then [QWidget_update] else []), s))
   \<and> OcctQWidgetViewer_mousePressEvent t r e s
     = ([Base_mousePressEvent e,
         UpdateMouseButtons (pos e)
           (qtMouseButtons2VKeys t (buttons e)) (qtMouseModifiers2VKeys t (modifiers e)) False]
        @ (if UpdateMouseButtons_changed r (pos e)
                (qtMouseButtons2VKeys t (buttons e)) (qtMouseModifiers2VKeys t (modifiers e))
           then [QWidget_update] else []), s)
   \<and> OcctQWidgetViewer_mouseReleaseEvent t r e s
     = ([Base_mouseReleaseEvent e,
         UpdateMouseButtons (pos e)
           (qtMouseButtons2VKeys t (buttons e)) (qtMouseModifiers2VKeys t (modifiers e)) False]
        @ (if UpdateMouseButtons_changed r (pos e)
                (qtMouseButtons2VKeys t (buttons e)) (qtMouseModifiers2VKeys t (modifiers e))
           then [QWidget_update] else []), s)
   \<and> OcctQWidgetViewer_mouseMoveEvent t r e s
     = ([Base_mouseMoveEvent e,
         UpdateMousePosition (pos e)
           (qtMouseButtons2VKeys t (buttons e)) (qtMouseModifiers2VKeys t (modifiers e)) False]
        @ (if UpdateMousePosition_changed r (pos e)
                (qtMouseButtons2VKeys t (buttons e)) (qtMouseModifiers2VKeys t (modifiers e))
           then [QWidget_update] else []), s)"
  using assms
  by (simp add: OcctQOpenGLWidgetViewer_mousePressEvent_def OcctQOpenGLWidgetViewer_mouseReleaseEvent_def
        OcctQOpenGLWidgetViewer_mouseMoveEvent_def OcctQWidgetViewer_mousePressEvent_def
        OcctQWidgetViewer_mouseReleaseEvent_def OcctQWidgetViewer_mouseMoveEvent_def
        scaled_to_device_pixels_def updateView_def Let_def)

theorem C9_witness:
  "fst (OcctQOpenGLWidgetViewer_mousePressEvent example_tools (example_renderer True None)
          scaled_host \<lparr>pos = (45, 5), buttons = 1, modifiers = 4\<rparr> bound_session)
     = [Base_mousePressEvent \<lparr>pos = (45, 5), buttons = 1, modifiers = 4\<rparr>,
        UpdateMouseButtons (62, 7) 1 4 False, QWidget_update]
   \<and> fst (OcctQOpenGLWidgetViewer_mouseMoveEvent example_tools (example_renderer False None)
          (example_host 7 2 True True) \<lparr>pos = (11, 21), buttons = 0, modifiers = 0\<rparr> bound_session)
     = [Base_mouseMoveEvent \<lparr>pos = (11, 21), buttons = 0, modifiers = 0\<rparr>,
        UpdateMousePosition (22, 42) 0 0 False]
   \<and> fst (OcctQWidgetViewer_mouseReleaseEvent example_tools (example_renderer True None)
          \<lparr>pos = (10, 20), buttons = 0, modifiers = 0\<rparr> bound_session)
     = [Base_mouseReleaseEvent \<lparr>pos = (10, 20), buttons = 0, modifiers = 0\<rparr>,
        UpdateMouseButtons (10, 20) 0 0 False, QWidget_update]"
proof -
  have v: "myView bound_session = Some 0" by (simp add: bound_session_def)
  have r: "devicePixelRatioF scaled_host = ratio_1_4"
    "devicePixelRatioF (example_host 7 2 True True) = double_of_int 2"
    by (simp_all add: scaled_host_def example_host_def)
  have p: "scaled_to_device_pixels ratio_1_4 (45, 5) = (62, 7)"
    "scaled_to_device_pixels (double_of_int 2) (11, 21) = (22, 42)"
    by (simp_all add: scaled_to_device_pixels_def mul_1_4_45 mul_1_4_5)
  have f: "fits_Vec2i (62, 7)" "fits_Vec2i (22, 42)"
    by (simp_all add: fits_Vec2i_def fits_int_def)
  from C9_pointer_events [OF v, of scaled_host "\<lparr>pos = (45, 5), buttons = 1, modifiers = 4\<rparr>"
         example_tools "example_renderer True None"]
       C9_pointer_events [OF v, of "example_host 7 2 True True"
         "\<lparr>pos = (11, 21), buttons = 0, modifiers = 0\<rparr>"
         example_tools "example_renderer False None"]
       C9_pointer_events [OF v, of "example_host 7 2 True True"
         "\<lparr>pos = (10, 20), buttons = 0, modifiers = 0\<rparr>"
         example_tools "example_renderer True None"]
  show ?thesis
    by (simp add: r p f example_tools_def example_renderer_def)
qed

section \<open>Wheel events and the focus (C4)\<close>

text \<open>
  C4: the focus is held in one handle, so at most one view is the target of input at any
  time.  With the view existing, a wheel event at a position where the controller picks a
  sub-view other than the focused one gives the focus to that sub-view, forwards no zoom
  and requests a repaint; a wheel event at a position where it picks the focused sub-view
  leaves the focus as it is, forwards one zoom about that position by an eighth of the
  angle delta, and requests a repaint exactly when the controller reports a change.  The
  position is the position of the event with each coordinate multiplied by the device
  pixel ratio in \<open>double\<close> arithmetic and cut to its whole part, which is to fit in an
  \<open>int\<close>.
\<close>

theorem C4_wheel_focus:
  assumes "myView s = Some v" and "PickSubview r aPos = Some p" and "p \<in> set (mySubviews s)"
    and "aPos = wheel_to_device_pixels (devicePixelRatioF h) (position e)"
    and "fits_Vec2i aPos"
  shows
  "card (focused s) \<le> 1
   \<and> card (focused (snd (OcctQOpenGLWidgetViewer_wheelEvent r h e s))) \<le> 1
   \<and> (myFocusView s \<noteq> Some p \<longrightarrow>
        OcctQOpenGLWidgetViewer_wheelEvent r h e s
          = ([Base_wheelEvent e, QWidget_update], s\<lparr>myFocusView := Some p\<rparr>)
        \<and> \<not> list_ex is_zoom (fst (OcctQOpenGLWidgetViewer_wheelEvent r h e s))
        \<and> focused (snd (OcctQOpenGLWidgetViewer_wheelEvent r h e s)) = {p})
   \<and> (myFocusView s = Some p \<longrightarrow>
        OcctQOpenGLWidgetViewer_wheelEvent r h e s
          = ([Base_wheelEvent e, UpdateZoom aPos (real_of_int (angleDelta_y e) / 8)]
               @ (if UpdateZoom_changed r aPos (real_of_int (angleDelta_y e) / 8)
                  then [QWidget_update] else []), s)
        \<and> (QWidget_update \<in> set (fst (OcctQOpenGLWidgetViewer_wheelEvent r h e s)))
            = UpdateZoom_changed r aPos (real_of_int (angleDelta_y e) / 8))"
proof -
  have ne: "mySubviews s \<noteq> []" using assms(3) by auto
  have c: "card (focused s') \<le> 1" for s'
    by (cases "myFocusView s'") (simp_all add: focused_def)
  show ?thesis
    using assms(1,2,4) ne c
    by (auto simp add: OcctQOpenGLWidgetViewer_wheelEvent_def OnSubviewChanged_def updateView_def
          wheel_to_device_pixels_def Let_def focused_def)
qed

theorem C4_witness:
  "OcctQOpenGLWidgetViewer_wheelEvent (split_renderer True) scaled_host
      \<lparr>position = (double_of_int 500, double_of_int 50), angleDelta_y = 120\<rparr> split_session
     = ([Base_wheelEvent \<lparr>position = (double_of_int 500, double_of_int 50), angleDelta_y = 120\<rparr>,
         QWidget_update],
        split_session\<lparr>myFocusView := Some 2\<rparr>)
   \<and> OcctQOpenGLWidgetViewer_wheelEvent (split_renderer False) scaled_host
      \<lparr>position = (double_of_int 499, double_of_int 50), angleDelta_y = 120\<rparr> split_session
     = ([Base_wheelEvent \<lparr>position = (double_of_int 499, double_of_int 50), angleDelta_y = 120\<rparr>,
         UpdateZoom (698, 70) 15],
        split_session)
   \<and> OcctQOpenGLWidgetViewer_wheelEvent (split_renderer True) scaled_host
      \<lparr>position = (double_of_int 499, double_of_int 50), angleDelta_y = 120\<rparr> split_session
     = ([Base_wheelEvent \<lparr>position = (double_of_int 499, double_of_int 50), angleDelta_y = 120\<rparr>,
         UpdateZoom (698, 70) 15, QWidget_update],
        split_session)"
proof -
  let ?e = "\<lparr>position = (double_of_int 500, double_of_int 50), angleDelta_y = 120\<rparr>"
  let ?e' = "\<lparr>position = (double_of_int 499, double_of_int 50), angleDelta_y = 120\<rparr>"
  have v: "myView split_session = Some 0"
    and sv: "1 \<in> set (mySubviews split_session)" "2 \<in> set (mySubviews split_session)"
    and fo: "myFocusView split_session = Some 1"
    by (simp_all add: split_session_def bound_session_def)
  have p: "(700, 70) = wheel_to_device_pixels (devicePixelRatioF scaled_host) (position ?e)"
    "(698, 70) = wheel_to_device_pixels (devicePixelRatioF scaled_host) (position ?e')"
    by (simp_all add: wheel_to_device_pixels_def scaled_host_def mul_1_4_500 mul_1_4_499 mul_1_4_50)
  have f: "fits_Vec2i (700, 70)" "fits_Vec2i (698, 70)"
    by (simp_all add: fits_Vec2i_def fits_int_def)
  have pk: "PickSubview (split_renderer c) (700, 70) = Some 2"
    "PickSubview (split_renderer c) (698, 70) = Some 1" for c
    by (simp_all add: split_renderer_def)
  from C4_wheel_focus [OF v pk(1) sv(2) p(1) f(1), of True]
       C4_wheel_focus [OF v pk(2) sv(1) p(2) f(2), of False]
       C4_wheel_focus [OF v pk(2) sv(1) p(2) f(2), of True] fo
  show ?thesis by (simp add: split_renderer_def)
qed

section \<open>One window and one wrapped framebuffer (C2)\<close>



lemma session_inv_focus [simp]: "session_inv (s\<lparr>myFocusView := f\<rparr>) = session_inv s"
  by (simp add: session_inv_def)
















lemma paint_twice_example:
  "map_option fst
     (deliver_all example_tools
        [Ev_paintGL (example_host 7 1 True True), Ev_paintGL (example_host 7 1 True True)]
        bound_session)
     = Some [OcctQtFrameBuffer_new 0, SetDefaultFrameBuffer 0, InitWrapper 0,
             InvalidateImmediate 0, FlushViewEvents 0 True, AIS_ViewController_handleViewRedraw 0,
             InitWrapper 0,
             InvalidateImmediate 0, FlushViewEvents 0 True, AIS_ViewController_handleViewRedraw 0]"
  by (simp add: OcctQOpenGLWidgetViewer_paintGL_def wrap_default_fbo_def bound_session_def
        example_host_def handleViewRedraw_def Let_def)

lemma initializeGL_twice_example:
  "map_option fst
     (deliver_all example_tools
        [Ev_initializeGL (example_host 7 1 True True), Ev_initializeGL (example_host 7 1 True True)]
        bound_session)
     = Some [OpenGl_Context_Init False, SetNativeHandle 0 7, SetSize 0 800 600,
             V3d_View_SetWindow 0 0, DiagnosticInformation 0 True,
             Message_SendInfo (''GLvendor: ACME'' @ [CHR 0x0A] @ ''GLversion: 4.5''),
             AIS_Display dummy_shape,
             OpenGl_Context_Init False, SetNativeHandle 0 7, SetSize 0 800 600,
             V3d_View_SetWindow 0 0, DiagnosticInformation 0 True,
             Message_SendInfo (''GLvendor: ACME'' @ [CHR 0x0A] @ ''GLversion: 4.5''),
             AIS_Display dummy_shape]"
  by (simp add: OcctQOpenGLWidgetViewer_initializeGL_def dumpGlInfo_def bound_session_def
        example_host_def Let_def)

lemma reinitialized_example:
  "map_option (\<lambda>(cs, s). (nbWindows s, nbFrameBuffers s, glDefaultFbo s,
                           map_option win_id (myWindow s),
                           filter is_alloc_window cs, filter is_alloc_fbo cs))
      (deliver_all example_tools
         [Ev_initializeGL (example_host 7 1 True True), Ev_paintGL (example_host 7 1 True True),
          Ev_initializeGL (example_host 7 1 True True), Ev_paintGL (example_host 7 1 True True)]
         (OcctQOpenGLWidgetViewer False))
     = Some (1, 1, Some 0, Some 0, [Aspect_NeutralWindow_new 0], [OcctQtFrameBuffer_new 0])"
  by (simp add: OcctQOpenGLWidgetViewer_def OcctQOpenGLWidgetViewer_initializeGL_def
        OcctQOpenGLWidgetViewer_paintGL_def wrap_default_fbo_def dumpGlInfo_def
        example_host_def handleViewRedraw_def Let_def)



end
